theory Spec2Isabelle
  imports Main "HOL-Library.Word" "HOL-Library.Sublist"
begin

section \<open>Python values\<close>

text \<open>
  A Python \<open>str\<close> is a sequence of Unicode code points, so it is a list of naturals here
  (\<open>str.splitlines\<close> and \<open>str.strip\<close> look at code points above U+00FF).
  \<open>str\<close> turns an ASCII literal into such a string.
\<close>

type_synonym pystr = "nat list"

definition str :: "string \<Rightarrow> pystr" where
  "str s = map of_char s"

text \<open>
  What \<open>json.loads\<close> returns, and what the AWS clients answer: \<open>None\<close>, \<open>bool\<close>,
  \<open>int\<close>, \<open>float\<close> (the 64 bits of the double), \<open>str\<close>, \<open>list\<close> and \<open>dict\<close>. A dict is
  the list of its items in insertion order; a lookup takes the first item with the key.
\<close>

datatype json =
    JNull
  | JBool bool
  | JInt int
  | JFloat "64 word"
  | JStr pystr
  | JArr "json list"
  | JObj "(pystr \<times> json) list"

text \<open>
  The exceptions of the two scripts. Every one of them is a subclass of \<open>Exception\<close>, so
  \<open>except Exception\<close> catches each; \<open>JSONDecodeError\<close> is a \<open>ValueError\<close> in Python, but
  \<open>except json.JSONDecodeError\<close> catches only the former. \<open>OtherException\<close> stands for
  any further exception a collaborator raises (a network error, \<open>RecursionError\<close>).
\<close>

datatype py_error =
    TypeError
  | AttributeError
  | KeyError
  | ValueError
  | JSONDecodeError
  | UnicodeDecodeError
  | ClientError pystr
  | TimeoutError pystr
  | RuntimeError pystr
  | OtherException pystr

text \<open>\<open>obj.get(key, default)\<close>: only a dict has the method.\<close>

fun dict_get :: "json \<Rightarrow> pystr \<Rightarrow> json \<Rightarrow> py_error + json" where
  "dict_get (JObj kvs) k dflt = Inr (case map_of kvs k of Some v \<Rightarrow> v | None \<Rightarrow> dflt)"
| "dict_get _ k dflt = Inl AttributeError"

text \<open>\<open>obj[key]\<close> with a string key: \<open>KeyError\<close> on a dict without it, \<open>TypeError\<close> elsewhere.\<close>

fun subscript :: "json \<Rightarrow> pystr \<Rightarrow> py_error + json" where
  "subscript (JObj kvs) k = (case map_of kvs k of Some v \<Rightarrow> Inr v | None \<Rightarrow> Inl KeyError)"
| "subscript _ k = Inl TypeError"

text \<open>
  \<open>for x in obj\<close>: the elements of a list, the keys of a dict, the one-character strings
  of a str; \<open>None\<close>, a bool and a number are not iterable.
\<close>

fun py_iter :: "json \<Rightarrow> py_error + json list" where
  "py_iter (JArr xs) = Inr xs"
| "py_iter (JObj kvs) = Inr (map (\<lambda>kv. JStr (fst kv)) kvs)"
| "py_iter (JStr s) = Inr (map (\<lambda>c. JStr [c]) s)"
| "py_iter _ = Inl TypeError"

section \<open>Dates\<close>

record pydate =
  year :: nat
  month :: nat
  day :: nat

record pydatetime =
  dt_date :: pydate
  hour :: nat
  minute :: nat
  second :: nat
  microsecond :: nat

definition isleap :: "nat \<Rightarrow> bool" where
  "isleap y = (y mod 4 = 0 \<and> (y mod 100 \<noteq> 0 \<or> y mod 400 = 0))"

text \<open>\<open>calendar.monthrange(y, m)[1]\<close>, the number of days of the month.\<close>

definition days_in_month :: "nat \<Rightarrow> nat \<Rightarrow> nat" where
  "days_in_month y m =
     (if m = 2 then (if isleap y then 29 else 28)
      else if m = 4 \<or> m = 6 \<or> m = 9 \<or> m = 11 then 30 else 31)"

definition valid_date :: "pydate \<Rightarrow> bool" where
  "valid_date d =
     (1 \<le> year d \<and> year d \<le> 9999 \<and> 1 \<le> month d \<and> month d \<le> 12 \<and>
      1 \<le> day d \<and> day d \<le> days_in_month (year d) (month d))"

text \<open>\<open>a <= b\<close> on dates: the order of the triples (year, month, day).\<close>

definition date_le :: "pydate \<Rightarrow> pydate \<Rightarrow> bool" where
  "date_le a b =
     (year a < year b \<or>
      (year a = year b \<and> (month a < month b \<or> (month a = month b \<and> day a \<le> day b))))"

text \<open>
  \<open>d + relativedelta(months=n)\<close> for \<open>1 \<le> n \<le> 12\<close>: the month moves on, the year with it
  past December, the day is cut to the length of the new month, and \<open>date.replace\<close> raises
  \<open>ValueError\<close> for a year past 9999.
\<close>

definition add_relativedelta_months :: "pydate \<Rightarrow> nat \<Rightarrow> py_error + pydate" where
  "add_relativedelta_months d n =
     (let m = month d + n;
          y' = (if m > 12 then year d + 1 else year d);
          m' = (if m > 12 then m - 12 else m);
          d' = min (days_in_month y' m') (day d)
      in if y' > 9999 then Inl ValueError
         else Inr \<lparr>year = y', month = m', day = d'\<rparr>)"

section \<open>The world outside the scripts\<close>

text \<open>
  The collaborators the scripts call and do not define: the wall clock (its k-th reading,
  for \<open>datetime.now()\<close> and \<open>datetime.utcnow()\<close>), the parsers of the standard library,
  and the S3 and Athena clients. \<open>get_object\<close> answers for the call and then for
  \<open>resp["Body"].read()\<close>; \<open>get_query_execution\<close> answers by the number of the fetch.
  \<open>json.dumps\<close> is total on the values of type \<open>json\<close>.
\<close>

record env =
  now_at :: "nat \<Rightarrow> pydatetime"
  fromisoformat :: "pystr \<Rightarrow> py_error + pydatetime"
  json_loads :: "pystr \<Rightarrow> py_error + json"
  json_dumps :: "json \<Rightarrow> pystr"
  decode_utf8 :: "8 word list \<Rightarrow> py_error + pystr"
  urlparse :: "pystr \<Rightarrow> py_error + pystr \<times> pystr"
  get_object :: "pystr \<Rightarrow> pystr \<Rightarrow> py_error + (py_error + 8 word list)"
  put_object :: "pystr \<Rightarrow> pystr \<Rightarrow> pystr \<Rightarrow> py_error + unit"
  copy_object :: "pystr \<Rightarrow> pystr \<Rightarrow> pystr \<Rightarrow> pystr \<Rightarrow> py_error + unit"
  start_query_execution :: "pystr \<Rightarrow> pystr \<Rightarrow> pystr \<Rightarrow> py_error + json"
  get_query_execution :: "nat \<Rightarrow> json \<Rightarrow> py_error + json"

text \<open>One constructor for each logging statement of the scripts, with the values it formats.\<close>

datatype log_event =
    Error_checking_expiring py_error json
  | Info_writing nat
  | Error_write_client py_error
  | Error_write py_error
  | Info_reading
  | Info_found_facilities nat
  | Error_read_client py_error
  | Error_get_all py_error
  | Info_filtering pydate
  | Info_accreditation_expiring json json json
  | Info_found_expiring nat pydate
  | Info_starting
  | Info_completed
  | Info_output_location pystr
  | Info_started_query json
  | Info_query_state json nat
  | Info_copying pystr pystr pystr pystr
  | Info_event pystr
  | Error_not_succeeded pystr
  | Info_written pystr

datatype s3_call =
    Put_object pystr pystr pystr
  | Copy_object pystr pystr pystr pystr

text \<open>
  What a run has done so far: the clock readings and Athena fetches it made, what it
  logged and printed, how long it slept, and the S3 writes that went through.
\<close>

record world =
  clock_reads :: nat
  athena_fetches :: nat
  logged :: "log_event list"
  printed :: "pystr list"
  slept :: "int list"
  s3_calls :: "s3_call list"

text \<open>A call either raises (\<open>Inl\<close>) or returns (\<open>Inr\<close>), in the world it has reached.\<close>

type_synonym 'a result = "(py_error \<times> world) + ('a \<times> world)"

definition emit :: "log_event \<Rightarrow> world \<Rightarrow> world" where
  "emit e w = w\<lparr>logged := logged w @ [e]\<rparr>"

text \<open>\<open>datetime.now()\<close>: the next reading of the clock.\<close>

definition read_clock :: "env \<Rightarrow> world \<Rightarrow> pydatetime \<times> world" where
  "read_clock ev w = (now_at ev (clock_reads w), w\<lparr>clock_reads := Suc (clock_reads w)\<rparr>)"

section \<open>Stage 2: transform_data.py\<close>

definition RAW_BUCKET :: pystr where "RAW_BUCKET = str ''healthcare-facility''"
definition TRANSFORMED_BUCKET :: pystr where "TRANSFORMED_BUCKET = str ''healthcare-facility''"
definition RAW_KEY :: pystr where "RAW_KEY = str ''raw/sample_facility_data.json''"
definition TRANSFORMED_KEY :: pystr where
  "TRANSFORMED_KEY = str ''transformed/expiring_facilities.json''"

text \<open>The line boundaries of \<open>str.splitlines\<close> and the whitespace of \<open>str.strip\<close>.\<close>

definition is_linebreak :: "nat \<Rightarrow> bool" where
  "is_linebreak c = (c \<in> {10, 11, 12, 13, 28, 29, 30, 133, 8232, 8233})"

definition is_space :: "nat \<Rightarrow> bool" where
  "is_space c =
     ((9 \<le> c \<and> c \<le> 13) \<or> (28 \<le> c \<and> c \<le> 32) \<or> c = 133 \<or> c = 160 \<or> c = 5760 \<or>
      (8192 \<le> c \<and> c \<le> 8202) \<or> c = 8232 \<or> c = 8233 \<or> c = 8239 \<or> c = 8287 \<or> c = 12288)"

fun splitlines_from :: "pystr \<Rightarrow> pystr \<Rightarrow> pystr list" where
  "splitlines_from cur [] = (if cur = [] then [] else [cur])"
| "splitlines_from cur (c # cs) =
     (if c = 13 then
        (case cs of
           [] \<Rightarrow> [cur]
         | c' # cs' \<Rightarrow>
             if c' = 10 then cur # splitlines_from [] cs' else cur # splitlines_from [] cs)
      else if is_linebreak c then cur # splitlines_from [] cs
      else splitlines_from (cur @ [c]) cs)"

definition splitlines :: "pystr \<Rightarrow> pystr list" where
  "splitlines s = splitlines_from [] s"

definition strip :: "pystr \<Rightarrow> pystr" where
  "strip s = rev (dropWhile is_space (rev (dropWhile is_space s)))"

text \<open>
  The loop of \<open>parse_json_lines\<close>: an empty line is passed over, a line that
  \<open>json.loads\<close> rejects with \<open>JSONDecodeError\<close> is printed and passed over, and any other
  exception of \<open>json.loads\<close> leaves the function.
\<close>

fun parse_json_lines_loop :: "env \<Rightarrow> pystr list \<Rightarrow> json list \<Rightarrow> world \<Rightarrow> json list result" where
  "parse_json_lines_loop ev [] facilities w = Inr (facilities, w)"
| "parse_json_lines_loop ev (l # ls) facilities w =
     (let line = strip l in
      if line = [] then parse_json_lines_loop ev ls facilities w
      else case json_loads ev line of
             Inr v \<Rightarrow> parse_json_lines_loop ev ls (facilities @ [v]) w
           | Inl e \<Rightarrow>
               if e = JSONDecodeError
               then parse_json_lines_loop ev ls facilities
                      (w\<lparr>printed := printed w @ [str ''Error parsing JSON line: '' @ line]\<rparr>)
               else Inl (e, w))"

definition parse_json_lines :: "env \<Rightarrow> pystr \<Rightarrow> world \<Rightarrow> json list result" where
  "parse_json_lines ev body w = parse_json_lines_loop ev (splitlines body) [] w"

text \<open>\<open>datetime.fromisoformat(v)\<close>: \<open>TypeError\<close> unless the argument is a str.\<close>

fun py_fromisoformat :: "env \<Rightarrow> json \<Rightarrow> py_error + pydatetime" where
  "py_fromisoformat ev (JStr s) = fromisoformat ev s"
| "py_fromisoformat ev _ = Inl TypeError"

text \<open>
  The \<open>try\<close> block of \<open>check_if_expiring\<close>: the left operand is evaluated first, so the
  clock is read only once the string has parsed.
\<close>

definition check_if_expiring_try :: "env \<Rightarrow> json \<Rightarrow> world \<Rightarrow> bool result" where
  "check_if_expiring_try ev valid_until w =
     (case py_fromisoformat ev valid_until of
        Inl e \<Rightarrow> Inl (e, w)
      | Inr dt \<Rightarrow>
          (case read_clock ev w of
             (now, w1) \<Rightarrow>
               (case add_relativedelta_months (dt_date now) 6 of
                  Inl e \<Rightarrow> Inl (e, w1)
                | Inr cutoff \<Rightarrow> Inr (date_le (dt_date dt) cutoff, w1))))"

definition check_if_expiring :: "env \<Rightarrow> json \<Rightarrow> world \<Rightarrow> bool result" where
  "check_if_expiring ev valid_until w =
     (case check_if_expiring_try ev valid_until w of
        Inr r \<Rightarrow> Inr r
      | Inl (e, w1) \<Rightarrow> Inr (False, emit (Error_checking_expiring e valid_until) w1))"

text \<open>
  The inner loop of \<open>filter_expiring_facilities\<close> over one facility's accreditations:
  the first accreditation that is expiring is logged and ends the loop (\<open>break\<close>) with
  \<open>True\<close>; the loop that runs out returns \<open>False\<close>.
\<close>

fun scan_accreditations :: "env \<Rightarrow> json \<Rightarrow> json list \<Rightarrow> world \<Rightarrow> bool result" where
  "scan_accreditations ev facility [] w = Inr (False, w)"
| "scan_accreditations ev facility (acc # accs) w =
     (case dict_get acc (str ''valid_until'') JNull of
        Inl e \<Rightarrow> Inl (e, w)
      | Inr valid_until \<Rightarrow>
          (case check_if_expiring ev valid_until w of
             Inl ew \<Rightarrow> Inl ew
           | Inr (expiring, w1) \<Rightarrow>
               if expiring then
                 (case dict_get facility (str ''facility_name'') JNull of
                    Inl e \<Rightarrow> Inl (e, w1)
                  | Inr name \<Rightarrow>
                      (case dict_get acc (str ''accreditation_body'') JNull of
                         Inl e \<Rightarrow> Inl (e, w1)
                       | Inr body \<Rightarrow>
                           Inr (True, emit (Info_accreditation_expiring name body valid_until) w1)))
               else scan_accreditations ev facility accs w1))"

text \<open>The outer loop, with the list \<open>expiring_facilities\<close> built so far.\<close>

fun filter_loop :: "env \<Rightarrow> json list \<Rightarrow> json list \<Rightarrow> world \<Rightarrow> json list result" where
  "filter_loop ev [] expiring_facilities w = Inr (expiring_facilities, w)"
| "filter_loop ev (facility # facilities) expiring_facilities w =
     (case dict_get facility (str ''accreditations'') (JArr []) of
        Inl e \<Rightarrow> Inl (e, w)
      | Inr accreditations \<Rightarrow>
          (case py_iter accreditations of
             Inl e \<Rightarrow> Inl (e, w)
           | Inr accs \<Rightarrow>
               (case scan_accreditations ev facility accs w of
                  Inl ew \<Rightarrow> Inl ew
                | Inr (found, w1) \<Rightarrow>
                    filter_loop ev facilities
                      (if found then expiring_facilities @ [facility] else expiring_facilities)
                      w1)))"

text \<open>
  \<open>datetime.now().date() + relativedelta(months=6)\<close> as the two logging statements of
  \<open>filter_expiring_facilities\<close> format it, outside any \<open>try\<close>.
\<close>

definition cutoff_now :: "env \<Rightarrow> world \<Rightarrow> pydate result" where
  "cutoff_now ev w =
     (case read_clock ev w of
        (now, w1) \<Rightarrow>
          (case add_relativedelta_months (dt_date now) 6 of
             Inl e \<Rightarrow> Inl (e, w1)
           | Inr cutoff \<Rightarrow> Inr (cutoff, w1)))"

definition filter_expiring_facilities :: "env \<Rightarrow> json list \<Rightarrow> world \<Rightarrow> json list result" where
  "filter_expiring_facilities ev facilities w =
     (case cutoff_now ev w of
        Inl ew \<Rightarrow> Inl ew
      | Inr (c1, w1) \<Rightarrow>
          (case filter_loop ev facilities [] (emit (Info_filtering c1) w1) of
             Inl ew \<Rightarrow> Inl ew
           | Inr (expiring_facilities, w2) \<Rightarrow>
               (case cutoff_now ev w2 of
                  Inl ew \<Rightarrow> Inl ew
                | Inr (c2, w3) \<Rightarrow>
                    Inr (expiring_facilities,
                         emit (Info_found_expiring (length expiring_facilities) c2) w3))))"

text \<open>The \<open>try\<close> block of \<open>write_to_s3\<close>, and the function with its two handlers.\<close>

definition write_to_s3_try :: "env \<Rightarrow> json list \<Rightarrow> world \<Rightarrow> unit result" where
  "write_to_s3_try ev data w =
     (let w1 = emit (Info_writing (length data)) w;
          body = json_dumps ev (JArr data)
      in case put_object ev TRANSFORMED_BUCKET TRANSFORMED_KEY body of
           Inl e \<Rightarrow> Inl (e, w1)
         | Inr u \<Rightarrow>
             Inr ((), w1\<lparr>s3_calls :=
                          s3_calls w1 @ [Put_object TRANSFORMED_BUCKET TRANSFORMED_KEY body]\<rparr>))"

definition write_to_s3 :: "env \<Rightarrow> json list \<Rightarrow> world \<Rightarrow> json result" where
  "write_to_s3 ev data w =
     (case write_to_s3_try ev data w of
        Inr (u, w1) \<Rightarrow> Inr (JNull, w1)
      | Inl (e, w1) \<Rightarrow>
          (case e of
             ClientError m \<Rightarrow> Inr (JNull, emit (Error_write_client e) w1)
           | _ \<Rightarrow> Inr (JNull, emit (Error_write e) w1)))"

text \<open>The \<open>try\<close> block of \<open>get_all_facilities\<close>, and the function with its two handlers.\<close>

definition get_all_facilities_try :: "env \<Rightarrow> world \<Rightarrow> json list result" where
  "get_all_facilities_try ev w =
     (let w1 = emit Info_reading w in
      case get_object ev RAW_BUCKET RAW_KEY of
        Inl e \<Rightarrow> Inl (e, w1)
      | Inr resp \<Rightarrow>
          (case resp of
             Inl e \<Rightarrow> Inl (e, w1)
           | Inr bytes \<Rightarrow>
               (case decode_utf8 ev bytes of
                  Inl e \<Rightarrow> Inl (e, w1)
                | Inr text \<Rightarrow>
                    (case parse_json_lines ev (strip text) w1 of
                       Inl ew \<Rightarrow> Inl ew
                     | Inr (facilities, w2) \<Rightarrow>
                         Inr (facilities, emit (Info_found_facilities (length facilities)) w2)))))"

definition get_all_facilities :: "env \<Rightarrow> world \<Rightarrow> json list result" where
  "get_all_facilities ev w =
     (case get_all_facilities_try ev w of
        Inr r \<Rightarrow> Inr r
      | Inl (e, w1) \<Rightarrow>
          (case e of
             ClientError m \<Rightarrow> Inr ([], emit (Error_read_client e) w1)
           | _ \<Rightarrow> Inr ([], emit (Error_get_all e) w1)))"

text \<open>The script's \<open>__main__\<close> block, from the S3 client on.\<close>

definition main :: "env \<Rightarrow> world \<Rightarrow> unit result" where
  "main ev w =
     (case get_all_facilities ev (emit Info_starting w) of
        Inl ew \<Rightarrow> Inl ew
      | Inr (facilities, w1) \<Rightarrow>
          (case filter_expiring_facilities ev facilities w1 of
             Inl ew \<Rightarrow> Inl ew
           | Inr (expiring_facilities, w2) \<Rightarrow>
               (case write_to_s3 ev expiring_facilities w2 of
                  Inl ew \<Rightarrow> Inl ew
                | Inr (u, w3) \<Rightarrow> Inr ((), emit Info_completed w3))))"

section \<open>Stage 3: stage3_lambda.py\<close>

definition ATHENA_DB :: pystr where "ATHENA_DB = str ''healthcare_facility_db''"
definition ATHENA_OUTPUT_LOCATION :: pystr where
  "ATHENA_OUTPUT_LOCATION = str ''s3://healthcare-facility/athena_results/''"
definition FINAL_RESULTS_BUCKET :: pystr where "FINAL_RESULTS_BUCKET = str ''healthcare-facility''"
definition FINAL_RESULTS_PREFIX :: pystr where "FINAL_RESULTS_PREFIX = str ''transformed/''"

definition STATE_COUNTS_QUERY :: pystr where
  "STATE_COUNTS_QUERY =
     str ''\<newline>SELECT \<newline>'' @
     str ''    location.state,\<newline>'' @
     str ''    COUNT(DISTINCT facility_id) AS accredited_facility_count\<newline>'' @
     str ''FROM healthcare_facility_db.raw\<newline>'' @
     str ''WHERE cardinality(accreditations) > 0\<newline>'' @
     str ''GROUP BY location.state;\<newline>''"

definition SUCCEEDED :: pystr where "SUCCEEDED = str ''SUCCEEDED''"
definition FAILED :: pystr where "FAILED = str ''FAILED''"
definition CANCELLED :: pystr where "CANCELLED = str ''CANCELLED''"
definition RUNNING :: pystr where "RUNNING = str ''RUNNING''"

definition start_athena_query :: "env \<Rightarrow> world \<Rightarrow> json result" where
  "start_athena_query ev w =
     (let w1 = emit (Info_output_location ATHENA_OUTPUT_LOCATION) w in
      case start_query_execution ev STATE_COUNTS_QUERY ATHENA_DB ATHENA_OUTPUT_LOCATION of
        Inl e \<Rightarrow> Inl (e, w1)
      | Inr response \<Rightarrow>
          (case subscript response (str ''QueryExecutionId'') of
             Inl e \<Rightarrow> Inl (e, w1)
           | Inr query_execution_id \<Rightarrow>
               Inr (query_execution_id, emit (Info_started_query query_execution_id) w1)))"

text \<open>\<open>athena.get_query_execution(QueryExecutionId=...)\<close>: one more fetch, counted even when it raises.\<close>

definition fetch_execution :: "env \<Rightarrow> json \<Rightarrow> world \<Rightarrow> json result" where
  "fetch_execution ev query_execution_id w =
     (let w1 = w\<lparr>athena_fetches := Suc (athena_fetches w)\<rparr> in
      case get_query_execution ev (athena_fetches w) query_execution_id of
        Inl e \<Rightarrow> Inl (e, w1)
      | Inr response \<Rightarrow> Inr (response, w1))"

text \<open>\<open>response["QueryExecution"][section][field]\<close>.\<close>

definition execution_field :: "json \<Rightarrow> pystr \<Rightarrow> pystr \<Rightarrow> py_error + json" where
  "execution_field response section field =
     (case subscript response (str ''QueryExecution'') of
        Inl e \<Rightarrow> Inl e
      | Inr execution \<Rightarrow>
          (case subscript execution section of
             Inl e \<Rightarrow> Inl e
           | Inr part \<Rightarrow> subscript part field))"

text \<open>
  \<open>state in ("SUCCEEDED", "FAILED", "CANCELLED")\<close>: a state in the tuple is one of the
  three strings, and it is what \<open>wait_for_query\<close> returns.
\<close>

fun terminal_state :: "json \<Rightarrow> pystr option" where
  "terminal_state (JStr s) =
     (if s = SUCCEEDED \<or> s = FAILED \<or> s = CANCELLED then Some s else None)"
| "terminal_state _ = None"

text \<open>\<open>time.sleep(delay)\<close> raises \<open>ValueError\<close> for a negative delay.\<close>

definition sleep :: "int \<Rightarrow> world \<Rightarrow> unit result" where
  "sleep delay w =
     (if delay < 0 then Inl (ValueError, w) else Inr ((), w\<lparr>slept := slept w @ [delay]\<rparr>))"

text \<open>The loop of \<open>wait_for_query\<close> over the attempts left of \<open>range(max_tries)\<close>.\<close>

fun wait_for_query_loop :: "env \<Rightarrow> json \<Rightarrow> int \<Rightarrow> nat list \<Rightarrow> world \<Rightarrow> pystr result" where
  "wait_for_query_loop ev query_execution_id delay [] w =
     Inl (TimeoutError (str ''Athena query timed out''), w)"
| "wait_for_query_loop ev query_execution_id delay (attempt # attempts) w =
     (case fetch_execution ev query_execution_id w of
        Inl ew \<Rightarrow> Inl ew
      | Inr (response, w1) \<Rightarrow>
          (case execution_field response (str ''Status'') (str ''State'') of
             Inl e \<Rightarrow> Inl (e, w1)
           | Inr state \<Rightarrow>
               (let w2 = emit (Info_query_state state (attempt + 1)) w1 in
                case terminal_state state of
                  Some s \<Rightarrow> Inr (s, w2)
                | None \<Rightarrow>
                    (case sleep delay w2 of
                       Inl ew \<Rightarrow> Inl ew
                     | Inr (u, w3) \<Rightarrow>
                         wait_for_query_loop ev query_execution_id delay attempts w3))))"

definition wait_for_query :: "env \<Rightarrow> json \<Rightarrow> int \<Rightarrow> int \<Rightarrow> world \<Rightarrow> pystr result" where
  "wait_for_query ev query_execution_id max_tries delay w =
     wait_for_query_loop ev query_execution_id delay [0..<nat max_tries] w"

text \<open>
  \<open>strftime("%Y%m%dT%H%M%SZ")\<close>: the decimal digits of each field, the year filled with
  zeros to four digits and the other fields to two.
\<close>

fun decimal :: "nat \<Rightarrow> pystr" where
  "decimal n = (if n < 10 then [48 + n] else decimal (n div 10) @ [48 + n mod 10])"

definition zfill :: "nat \<Rightarrow> pystr \<Rightarrow> pystr" where
  "zfill n s = replicate (n - length s) 48 @ s"

definition strftime_compact :: "pydatetime \<Rightarrow> pystr" where
  "strftime_compact t =
     zfill 4 (decimal (year (dt_date t))) @ zfill 2 (decimal (month (dt_date t))) @
     zfill 2 (decimal (day (dt_date t))) @ str ''T'' @
     zfill 2 (decimal (hour t)) @ zfill 2 (decimal (minute t)) @
     zfill 2 (decimal (second t)) @ str ''Z''"

text \<open>
  \<open>urlparse(output_location)\<close>, answering \<open>netloc\<close> and \<open>path\<close>. The output location of
  an Athena answer is a str; another value ends in an exception, here \<open>TypeError\<close>.
\<close>

fun py_urlparse :: "env \<Rightarrow> json \<Rightarrow> py_error + pystr \<times> pystr" where
  "py_urlparse ev (JStr s) = urlparse ev s"
| "py_urlparse ev _ = Inl TypeError"

definition copy_results_to_final_location :: "env \<Rightarrow> json \<Rightarrow> world \<Rightarrow> pystr result" where
  "copy_results_to_final_location ev query_execution_id w =
     (case fetch_execution ev query_execution_id w of
        Inl ew \<Rightarrow> Inl ew
      | Inr (execution, w1) \<Rightarrow>
          (case execution_field execution (str ''ResultConfiguration'') (str ''OutputLocation'') of
             Inl e \<Rightarrow> Inl (e, w1)
           | Inr output_location \<Rightarrow>
               (case py_urlparse ev output_location of
                  Inl e \<Rightarrow> Inl (e, w1)
                | Inr (src_bucket, path) \<Rightarrow>
                    (case read_clock ev w1 of
                       (utcnow, w2) \<Rightarrow>
                         (let src_key = dropWhile (\<lambda>c. c = 47) path;
                              timestamp = strftime_compact utcnow;
                              dest_key = FINAL_RESULTS_PREFIX @ str ''state_counts_'' @
                                         timestamp @ str ''.csv'';
                              w3 = emit (Info_copying src_bucket src_key
                                           FINAL_RESULTS_BUCKET dest_key) w2
                          in case copy_object ev FINAL_RESULTS_BUCKET dest_key src_bucket src_key of
                               Inl e \<Rightarrow> Inl (e, w3)
                             | Inr u \<Rightarrow>
                                 Inr (str ''s3://'' @ FINAL_RESULTS_BUCKET @ str ''/'' @ dest_key,
                                      w3\<lparr>s3_calls := s3_calls w3 @
                                            [Copy_object FINAL_RESULTS_BUCKET dest_key
                                               src_bucket src_key]\<rparr>))))))"

definition lambda_handler :: "env \<Rightarrow> json \<Rightarrow> world \<Rightarrow> json result" where
  "lambda_handler ev event w =
     (case start_athena_query ev (emit (Info_event (json_dumps ev event)) w) of
        Inl ew \<Rightarrow> Inl ew
      | Inr (query_execution_id, w1) \<Rightarrow>
          (case wait_for_query ev query_execution_id 20 3 w1 of
             Inl ew \<Rightarrow> Inl ew
           | Inr (state, w2) \<Rightarrow>
               if state \<noteq> SUCCEEDED then
                 Inl (RuntimeError (str ''Athena query failed with state: '' @ state),
                      emit (Error_not_succeeded state) w2)
               else
                 (case copy_results_to_final_location ev query_execution_id w2 of
                    Inl ew \<Rightarrow> Inl ew
                  | Inr (final_s3_path, w3) \<Rightarrow>
                      Inr (JObj [(str ''statusCode'', JInt 200),
                                 (str ''body'',
                                  JStr (json_dumps ev
                                    (JObj [(str ''message'',
                                            JStr (str ''Athena state counts query completed'')),
                                           (str ''result_path'', JStr final_s3_path)])))],
                           emit (Info_written final_s3_path) w3))))"

section \<open>Notions the properties are stated with\<close>

fun is_dict :: "json \<Rightarrow> bool" where
  "is_dict (JObj kvs) = True"
| "is_dict _ = False"

text \<open>The accreditations a facility is scanned for, and the \<open>valid_until\<close> of one of them.\<close>

definition accreditations_of :: "json \<Rightarrow> json list" where
  "accreditations_of facility =
     (case dict_get facility (str ''accreditations'') (JArr []) of
        Inl e \<Rightarrow> []
      | Inr a \<Rightarrow> (case py_iter a of Inl e \<Rightarrow> [] | Inr accs \<Rightarrow> accs))"

definition valid_until_of :: "json \<Rightarrow> json" where
  "valid_until_of acc =
     (case dict_get acc (str ''valid_until'') JNull of Inl e \<Rightarrow> JNull | Inr v \<Rightarrow> v)"

text \<open>
  A facility record of the data model: a dict whose \<open>accreditations\<close>, when it has any,
  is a list of dicts.
\<close>

definition is_facility_record :: "json \<Rightarrow> bool" where
  "is_facility_record facility =
     (is_dict facility \<and>
      (case dict_get facility (str ''accreditations'') (JArr []) of
         Inr (JArr accs) \<Rightarrow> list_all is_dict accs
       | _ \<Rightarrow> False))"

text \<open>A facility without the key \<open>accreditations\<close>, or with the empty list under it.\<close>

fun lacks_accreditations :: "json \<Rightarrow> bool" where
  "lacks_accreditations (JObj kvs) =
     (map_of kvs (str ''accreditations'') = None \<or>
      map_of kvs (str ''accreditations'') = Some (JArr []))"
| "lacks_accreditations _ = False"

text \<open>
  The value parses as an ISO date on or before the cutoff; it does so with the cutoff six
  months after \<open>today\<close>.
\<close>

definition on_or_before :: "env \<Rightarrow> pydate \<Rightarrow> json \<Rightarrow> bool" where
  "on_or_before ev cutoff v =
     (case py_fromisoformat ev v of Inl e \<Rightarrow> False | Inr dt \<Rightarrow> date_le (dt_date dt) cutoff)"

definition expiring_on :: "env \<Rightarrow> pydate \<Rightarrow> json \<Rightarrow> bool" where
  "expiring_on ev today v =
     (case add_relativedelta_months today 6 of
        Inl e \<Rightarrow> False
      | Inr cutoff \<Rightarrow> on_or_before ev cutoff v)"

definition has_expiring :: "env \<Rightarrow> pydate \<Rightarrow> json \<Rightarrow> bool" where
  "has_expiring ev today facility =
     list_ex (\<lambda>acc. expiring_on ev today (valid_until_of acc)) (accreditations_of facility)"

definition has_on_or_before :: "env \<Rightarrow> pydate \<Rightarrow> json \<Rightarrow> bool" where
  "has_on_or_before ev cutoff facility =
     list_ex (\<lambda>acc. on_or_before ev cutoff (valid_until_of acc)) (accreditations_of facility)"

text \<open>
  The lines of a body that are not empty once stripped; those that \<open>json.loads\<close> takes,
  with their values, and those it rejects as malformed.
\<close>

definition stripped_lines :: "pystr \<Rightarrow> pystr list" where
  "stripped_lines body = filter (\<lambda>l. l \<noteq> []) (map strip (splitlines body))"

definition is_valid_line :: "env \<Rightarrow> pystr \<Rightarrow> bool" where
  "is_valid_line ev l = (case json_loads ev l of Inl e \<Rightarrow> False | Inr v \<Rightarrow> True)"

definition is_malformed_line :: "env \<Rightarrow> pystr \<Rightarrow> bool" where
  "is_malformed_line ev l = (json_loads ev l = Inl JSONDecodeError)"

definition loaded_values :: "env \<Rightarrow> pystr list \<Rightarrow> json list" where
  "loaded_values ev ls =
     List.map_filter (\<lambda>l. case json_loads ev l of Inl e \<Rightarrow> None | Inr v \<Rightarrow> Some v) ls"

text \<open>The state the k-th fetch of a query's execution shows.\<close>

definition polled_state :: "env \<Rightarrow> json \<Rightarrow> nat \<Rightarrow> py_error + json" where
  "polled_state ev query_execution_id k =
     (case get_query_execution ev k query_execution_id of
        Inl e \<Rightarrow> Inl e
      | Inr response \<Rightarrow> execution_field response (str ''Status'') (str ''State''))"

text \<open>
  The digits of \<open>YYYYMMDDTHHMMSSZ\<close>, the fields a \<open>datetime\<close> can have, and the key
  \<open><archive-prefix>state_counts_<UTC-timestamp>.csv\<close> of the archived result for the
  time of the copy.
\<close>

definition two_digits :: "nat \<Rightarrow> pystr" where
  "two_digits n = [48 + n div 10, 48 + n mod 10]"

definition four_digits :: "nat \<Rightarrow> pystr" where
  "four_digits n = [48 + n div 1000, 48 + n div 100 mod 10, 48 + n div 10 mod 10, 48 + n mod 10]"

definition valid_datetime :: "pydatetime \<Rightarrow> bool" where
  "valid_datetime t =
     (valid_date (dt_date t) \<and> hour t < 24 \<and> minute t < 60 \<and> second t < 60 \<and>
      microsecond t < 1000000)"

definition archive_key :: "pydatetime \<Rightarrow> pystr" where
  "archive_key t =
     str ''transformed/state_counts_'' @
     four_digits (year (dt_date t)) @ two_digits (month (dt_date t)) @
     two_digits (day (dt_date t)) @ str ''T'' @ two_digits (hour t) @
     two_digits (minute t) @ two_digits (second t) @ str ''Z'' @ str ''.csv''"

section \<open>Sample collaborators\<close>

text \<open>
  Concrete collaborators to run the scripts on: a parser of the dates written
  \<open>YYYY-MM-DD\<close> (which every \<open>datetime.fromisoformat\<close> accepts), a \<open>json.loads\<close> given by
  the table of the lines it takes, a clock given by the list of its readings (the last one
  repeated), and an Athena that shows a list of states, one a fetch, then \<open>RUNNING\<close>.
\<close>

definition digit_value :: "nat \<Rightarrow> nat option" where
  "digit_value c = (if 48 \<le> c \<and> c \<le> 57 then Some (c - 48) else None)"

fun digits_value :: "pystr \<Rightarrow> nat option" where
  "digits_value [] = Some 0"
| "digits_value (c # cs) =
     (case digit_value (last (c # cs)) of
        None \<Rightarrow> None
      | Some d \<Rightarrow>
          (case digits_value (butlast (c # cs)) of
             None \<Rightarrow> None
           | Some n \<Rightarrow> Some (10 * n + d)))"

definition midnight :: "pydate \<Rightarrow> pydatetime" where
  "midnight d = \<lparr>dt_date = d, hour = 0, minute = 0, second = 0, microsecond = 0\<rparr>"

definition sample_fromisoformat :: "pystr \<Rightarrow> py_error + pydatetime" where
  "sample_fromisoformat s =
     (if length s = 10 \<and> s ! 4 = 45 \<and> s ! 7 = 45 then
        (case (digits_value (take 4 s), digits_value (take 2 (drop 5 s)),
               digits_value (drop 8 s)) of
           (Some y, Some m, Some d) \<Rightarrow>
             if valid_date \<lparr>year = y, month = m, day = d\<rparr>
             then Inr (midnight \<lparr>year = y, month = m, day = d\<rparr>)
             else Inl ValueError
         | _ \<Rightarrow> Inl ValueError)
      else Inl ValueError)"

definition loads_table :: "(pystr \<times> json) list \<Rightarrow> pystr \<Rightarrow> py_error + json" where
  "loads_table table l = (case map_of table l of None \<Rightarrow> Inl JSONDecodeError | Some v \<Rightarrow> Inr v)"

definition readings :: "pydatetime \<Rightarrow> pydatetime list \<Rightarrow> nat \<Rightarrow> pydatetime" where
  "readings t ts k = (if k < length ts then ts ! k else t)"

definition execution_response :: "pystr \<Rightarrow> pystr \<Rightarrow> json" where
  "execution_response state location =
     JObj [(str ''QueryExecution'',
            JObj [(str ''Status'', JObj [(str ''State'', JStr state)]),
                  (str ''ResultConfiguration'',
                   JObj [(str ''OutputLocation'', JStr location)])])]"

definition shows_states :: "pystr list \<Rightarrow> nat \<Rightarrow> json \<Rightarrow> py_error + json" where
  "shows_states states k query_execution_id =
     Inr (execution_response (if k < length states then states ! k else RUNNING)
            (str ''s3://healthcare-facility/athena_results/q1.csv''))"

definition sample_env :: env where
  "sample_env =
     \<lparr>now_at = readings (midnight \<lparr>year = 2023, month = 8, day = 1\<rparr>) [],
      fromisoformat = sample_fromisoformat,
      json_loads = loads_table [(str ''{}'', JObj []), (str ''[]'', JArr [])],
      json_dumps = (\<lambda>v. str ''null''),
      decode_utf8 = (\<lambda>bytes. Inr (map unat bytes)),
      urlparse = (\<lambda>url. Inr (str ''healthcare-facility'', str ''/athena_results/q1.csv'')),
      get_object = (\<lambda>bucket key. Inl (ClientError (str ''NoSuchKey''))),
      put_object = (\<lambda>bucket key body. Inl (OtherException (str ''EndpointConnectionError''))),
      copy_object = (\<lambda>bucket key src_bucket src_key. Inr ()),
      start_query_execution = (\<lambda>query db location. Inr (JObj [(str ''QueryExecutionId'', JStr (str ''q1''))])),
      get_query_execution = shows_states [RUNNING, RUNNING, SUCCEEDED]\<rparr>"

definition world0 :: world where
  "world0 = \<lparr>clock_reads = 0, athena_fetches = 0, logged = [], printed = [], slept = [],
             s3_calls = []\<rparr>"

definition accredited :: "string \<Rightarrow> string \<Rightarrow> json" where
  "accredited name valid_until =
     JObj [(str ''facility_name'', JStr (str name)),
           (str ''accreditations'', JArr [JObj [(str ''valid_until'', JStr (str valid_until))]])]"

text \<open>
  A clock whose date changes after its first two readings, from 31 July to 1 August 2023,
  and a clock that stays on 1 January 2023.
\<close>

definition rollover_env :: env where
  "rollover_env =
     sample_env\<lparr>now_at :=
       readings (midnight \<lparr>year = 2023, month = 8, day = 1\<rparr>)
         [midnight \<lparr>year = 2023, month = 7, day = 31\<rparr>,
          midnight \<lparr>year = 2023, month = 7, day = 31\<rparr>]\<rparr>"

definition january_env :: env where
  "january_env = sample_env\<lparr>now_at := readings (midnight \<lparr>year = 2023, month = 1, day = 1\<rparr>) []\<rparr>"

text \<open>
  An Athena whose query fails on the second fetch, one whose query keeps running, and a
  clock that reads 3 November 2026, 17:26:05.
\<close>

definition failed_env :: env where
  "failed_env = sample_env\<lparr>get_query_execution := shows_states [RUNNING, FAILED]\<rparr>"

definition running_env :: env where
  "running_env = sample_env\<lparr>get_query_execution := shows_states []\<rparr>"

definition evening_env :: env where
  "evening_env =
     sample_env\<lparr>now_at :=
       readings \<lparr>dt_date = \<lparr>year = 2026, month = 11, day = 3\<rparr>, hour = 17, minute = 26,
                  second = 5, microsecond = 123456\<rparr> []\<rparr>"


section \<open>Running the scripts on the sample collaborators\<close>

lemmas run_defs =
  str_def sample_env_def world0_def accredited_def readings_def midnight_def loads_table_def
  sample_fromisoformat_def digit_value_def valid_date_def days_in_month_def isleap_def
  date_le_def add_relativedelta_months_def emit_def read_clock_def
  check_if_expiring_def check_if_expiring_try_def cutoff_now_def filter_expiring_facilities_def
  rollover_env_def january_env_def

lemmas notion_defs =
  is_facility_record_def accreditations_of_def valid_until_of_def on_or_before_def
  expiring_on_def has_expiring_def has_on_or_before_def stripped_lines_def is_valid_line_def
  is_malformed_line_def loaded_values_def

lemmas poll_defs =
  polled_state_def shows_states_def execution_response_def execution_field_def
  SUCCEEDED_def FAILED_def CANCELLED_def RUNNING_def str_def sample_env_def world0_def
  failed_env_def running_env_def evening_env_def

declare decimal.simps [simp del]

section \<open>The expiry filter\<close>

lemma check_if_expiring_result:
  "check_if_expiring ev v w =
     Inr (expiring_on ev (dt_date (now_at ev (clock_reads w))) v,
          case py_fromisoformat ev v of
            Inl e \<Rightarrow> emit (Error_checking_expiring e v) w
          | Inr dt \<Rightarrow>
              (case add_relativedelta_months (dt_date (now_at ev (clock_reads w))) 6 of
                 Inl e \<Rightarrow> emit (Error_checking_expiring e v) (w\<lparr>clock_reads := Suc (clock_reads w)\<rparr>)
               | Inr c \<Rightarrow> w\<lparr>clock_reads := Suc (clock_reads w)\<rparr>))"
  by (simp add: check_if_expiring_def check_if_expiring_try_def read_clock_def expiring_on_def
      on_or_before_def split: sum.splits)

lemma dict_get_is_dict: "is_dict x \<Longrightarrow> \<exists>v. dict_get x k d = Inr v"
  by (cases x) simp_all

lemma valid_until_of_dict: "dict_get acc (str ''valid_until'') JNull = Inr v \<Longrightarrow> valid_until_of acc = v"
  by (simp add: valid_until_of_def)

lemma scan_accreditations_constant_clock:
  assumes "\<forall>k. dt_date (now_at ev k) = today" and "is_dict facility" and "list_all is_dict accs"
  shows "\<exists>w'. scan_accreditations ev facility accs w =
           Inr (list_ex (\<lambda>acc. expiring_on ev today (valid_until_of acc)) accs, w')"
  using assms(3)
proof (induction accs arbitrary: w)
  case Nil
  then show ?case by simp
next
  case (Cons acc accs)
  from Cons.prems have d: "is_dict acc" and rest: "list_all is_dict accs" by simp_all
  from d obtain v where v: "dict_get acc (str ''valid_until'') JNull = Inr v"
    using dict_get_is_dict by blast
  from d obtain b where b: "dict_get acc (str ''accreditation_body'') JNull = Inr b"
    using dict_get_is_dict by blast
  from assms(2) obtain n where n: "dict_get facility (str ''facility_name'') JNull = Inr n"
    using dict_get_is_dict by blast
  have vu: "valid_until_of acc = v" using v by (rule valid_until_of_dict)
  obtain w1 where c: "check_if_expiring ev v w = Inr (expiring_on ev today v, w1)"
    using check_if_expiring_result [of ev v w] assms(1) by simp
  show ?case
  proof (cases "expiring_on ev today v")
    case True
    with v b n c vu show ?thesis by simp
  next
    case False
    with v c vu Cons.IH [OF rest, of w1] show ?thesis by simp
  qed
qed

lemma scan_accreditations_stops:
  "scan_accreditations ev facility xs w = Inr (True, w') \<Longrightarrow>
   scan_accreditations ev facility (xs @ ys) w = Inr (True, w')"
proof (induction xs arbitrary: w)
  case Nil
  then show ?case by simp
next
  case (Cons x xs)
  then show ?case
    by (auto split: sum.splits if_splits prod.splits)
qed

lemma facility_record_accreditations:
  assumes "is_facility_record f"
  shows "\<exists>accs. dict_get f (str ''accreditations'') (JArr []) = Inr (JArr accs) \<and>
           list_all is_dict accs \<and> accreditations_of f = accs \<and> is_dict f"
  using assms
  by (auto simp add: is_facility_record_def accreditations_of_def split: sum.splits json.splits)

lemma filter_loop_constant_clock:
  assumes "\<forall>k. dt_date (now_at ev k) = today" and "list_all is_facility_record L"
  shows "\<exists>w'. filter_loop ev L out w = Inr (out @ filter (has_expiring ev today) L, w')"
  using assms(2)
proof (induction L arbitrary: out w)
  case Nil
  then show ?case by simp
next
  case (Cons f fs)
  from Cons.prems have "is_facility_record f" and rest: "list_all is_facility_record fs" by simp_all
  then obtain accs where a: "dict_get f (str ''accreditations'') (JArr []) = Inr (JArr accs)"
    and ds: "list_all is_dict accs" and ao: "accreditations_of f = accs" and d: "is_dict f"
    using facility_record_accreditations by blast
  obtain w1 where s: "scan_accreditations ev f accs w =
      Inr (list_ex (\<lambda>acc. expiring_on ev today (valid_until_of acc)) accs, w1)"
    using scan_accreditations_constant_clock [OF assms(1) d ds] by blast
  have h: "has_expiring ev today f = list_ex (\<lambda>acc. expiring_on ev today (valid_until_of acc)) accs"
    by (simp add: has_expiring_def ao)
  show ?case
    using a s h Cons.IH [OF rest, of "if has_expiring ev today f then out @ [f] else out" w1]
    by auto
qed

lemma cutoff_now_constant_clock:
  assumes "\<forall>k. dt_date (now_at ev k) = today" and "add_relativedelta_months today 6 = Inr cutoff"
  shows "cutoff_now ev w = Inr (cutoff, w\<lparr>clock_reads := Suc (clock_reads w)\<rparr>)"
  using assms by (simp add: cutoff_now_def read_clock_def)

lemma filter_expiring_facilities_constant_clock:
  assumes "\<forall>k. dt_date (now_at ev k) = today" and "add_relativedelta_months today 6 = Inr cutoff"
    and "list_all is_facility_record L"
  shows "\<exists>w'. filter_expiring_facilities ev L w = Inr (filter (has_expiring ev today) L, w')"
proof -
  let ?w1 = "emit (Info_filtering cutoff) (w\<lparr>clock_reads := Suc (clock_reads w)\<rparr>)"
  obtain w2 where l: "filter_loop ev L [] ?w1 = Inr ([] @ filter (has_expiring ev today) L, w2)"
    using filter_loop_constant_clock [OF assms(1) assms(3)] by blast
  show ?thesis
    using l cutoff_now_constant_clock [OF assms(1) assms(2)]
    by (simp add: filter_expiring_facilities_def)
qed

lemma has_expiring_on_or_before:
  "add_relativedelta_months today 6 = Inr cutoff \<Longrightarrow>
   has_expiring ev today = has_on_or_before ev cutoff"
  by (simp add: fun_eq_iff has_expiring_def has_on_or_before_def expiring_on_def)

lemma filter_loop_skips:
  "lacks_accreditations f \<Longrightarrow> filter_loop ev (f # fs) out w = filter_loop ev fs out w"
  by (cases f) auto

lemma filter_loop_append:
  "filter_loop ev (xs @ ys) out w =
     (case filter_loop ev xs out w of Inl ew \<Rightarrow> Inl ew | Inr (out', w') \<Rightarrow> filter_loop ev ys out' w')"
  by (induction xs arbitrary: out w) (auto split: sum.splits prod.splits)

lemma filter_loop_without:
  "lacks_accreditations f \<Longrightarrow>
   filter_loop ev (pre @ f # post) out w = filter_loop ev (pre @ post) out w"
  by (simp add: filter_loop_append filter_loop_skips del: filter_loop.simps
      split: sum.splits prod.splits)

lemma scan_found_nonempty:
  "scan_accreditations ev f accs w = Inr (True, w') \<Longrightarrow> accs \<noteq> []"
  by (cases accs) auto

lemma lacks_accreditations_iter:
  "lacks_accreditations f \<Longrightarrow>
   \<exists>a. dict_get f (str ''accreditations'') (JArr []) = Inr a \<and> py_iter a = Inr []"
  by (cases f) auto

lemma filter_loop_never_lacking:
  "filter_loop ev L out w = Inr (r, w') \<Longrightarrow> lacks_accreditations f \<Longrightarrow> f \<notin> set out \<Longrightarrow>
   f \<notin> set r"
proof (induction L arbitrary: out w)
  case Nil
  then show ?case by simp
next
  case (Cons g gs)
  from Cons.prems(1) obtain a accs found w1 where
    a: "dict_get g (str ''accreditations'') (JArr []) = Inr a" and i: "py_iter a = Inr accs"
    and s: "scan_accreditations ev g accs w = Inr (found, w1)"
    and l: "filter_loop ev gs (if found then out @ [g] else out) w1 = Inr (r, w')"
    by (auto split: sum.splits prod.splits)
  have "f \<notin> set (if found then out @ [g] else out)"
  proof (cases found)
    case True
    with s have "scan_accreditations ev g accs w = Inr (True, w1)" by simp
    then have "accs \<noteq> []" by (rule scan_found_nonempty)
    with a i Cons.prems(2) have "g \<noteq> f" using lacks_accreditations_iter [of f] by auto
    with True Cons.prems(3) show ?thesis by simp
  next
    case False
    with Cons.prems(3) show ?thesis by simp
  qed
  with Cons.IH [OF l Cons.prems(2)] show ?case by blast
qed


lemma filter_loop_subseq:
  "filter_loop ev L out w = Inr (r, w') \<Longrightarrow> \<exists>r'. r = out @ r' \<and> subseq r' L"
proof (induction L arbitrary: out w)
  case Nil
  then show ?case by simp
next
  case (Cons g gs)
  from Cons.prems obtain found w1 where
    l: "filter_loop ev gs (if found then out @ [g] else out) w1 = Inr (r, w')"
    by (auto split: sum.splits prod.splits)
  from Cons.IH [OF l] obtain r' where r': "r = (if found then out @ [g] else out) @ r'"
    and s: "subseq r' gs" by blast
  show ?case
  proof (cases found)
    case True
    with r' s show ?thesis by (intro exI [of _ "g # r'"]) simp
  next
    case False
    with r' s show ?thesis by (intro exI [of _ r']) (simp add: list_emb_Cons)
  qed
qed

lemma filter_expiring_facilities_subseq:
  "filter_expiring_facilities ev L w = Inr (r, w') \<Longrightarrow> subseq r L"
proof -
  assume "filter_expiring_facilities ev L w = Inr (r, w')"
  then obtain w1 w2 where "filter_loop ev L [] w1 = Inr (r, w2)"
    by (auto simp add: filter_expiring_facilities_def split: sum.splits prod.splits)
  from filter_loop_subseq [OF this] show ?thesis by simp
qed

lemma cutoff_now_in_range:
  assumes "\<forall>k. year (dt_date (now_at ev k)) < 9999"
  shows "\<exists>c. cutoff_now ev w = Inr (c, w\<lparr>clock_reads := Suc (clock_reads w)\<rparr>)"
proof -
  have "year (dt_date (now_at ev (clock_reads w))) < 9999" using assms by blast
  then show ?thesis
    by (simp add: cutoff_now_def read_clock_def add_relativedelta_months_def Let_def)
qed

lemma filter_expiring_facilities_empty:
  assumes "\<forall>k. year (dt_date (now_at ev k)) < 9999"
  shows "\<exists>w'. filter_expiring_facilities ev [] w = Inr ([], w')"
proof -
  obtain c1 where 1: "cutoff_now ev w = Inr (c1, w\<lparr>clock_reads := Suc (clock_reads w)\<rparr>)"
    using cutoff_now_in_range [OF assms] by blast
  let ?w1 = "emit (Info_filtering c1) (w\<lparr>clock_reads := Suc (clock_reads w)\<rparr>)"
  obtain c2 where 2: "cutoff_now ev ?w1 = Inr (c2, ?w1\<lparr>clock_reads := Suc (clock_reads ?w1)\<rparr>)"
    using cutoff_now_in_range [OF assms] by blast
  show ?thesis using 1 2 by (simp add: filter_expiring_facilities_def)
qed

lemma filter_expiring_facilities_without:
  assumes "lacks_accreditations f"
  shows "filter_expiring_facilities ev (pre @ f # post) w =
         filter_expiring_facilities ev (pre @ post) w"
  by (simp add: filter_expiring_facilities_def filter_loop_without [OF assms]
      split: sum.splits prod.splits)

lemma filter_expiring_facilities_never_lacking:
  assumes "filter_expiring_facilities ev L w = Inr (r, w')" and "lacks_accreditations f"
  shows "f \<notin> set r"
proof -
  from assms(1) obtain w1 w2 where "filter_loop ev L [] w1 = Inr (r, w2)"
    by (auto simp add: filter_expiring_facilities_def split: sum.splits prod.splits)
  from filter_loop_never_lacking [OF this assms(2)] show ?thesis by simp
qed

lemma get_all_facilities_returns:
  "\<exists>r w'. get_all_facilities ev w = Inr (r, w')"
  by (simp add: get_all_facilities_def split: sum.splits prod.splits py_error.splits)

lemma get_all_facilities_absorbs:
  assumes "get_all_facilities_try ev w = Inl (e, w1)"
  shows "get_all_facilities ev w =
           Inr ([], emit (case e of ClientError m \<Rightarrow> Error_read_client e | _ \<Rightarrow> Error_get_all e) w1)"
  using assms by (simp add: get_all_facilities_def split: py_error.splits)

lemma write_to_s3_returns:
  "\<exists>w'. write_to_s3 ev data w = Inr (JNull, w')"
  by (simp add: write_to_s3_def split: sum.splits prod.splits py_error.splits)

lemma write_to_s3_absorbs:
  assumes "put_object ev TRANSFORMED_BUCKET TRANSFORMED_KEY (json_dumps ev (JArr data)) = Inl e"
  shows "write_to_s3 ev data w =
           Inr (JNull, emit (case e of ClientError m \<Rightarrow> Error_write_client e | _ \<Rightarrow> Error_write e)
                         (emit (Info_writing (length data)) w))"
  using assms by (simp add: write_to_s3_def write_to_s3_try_def Let_def split: py_error.splits)

lemma fetch_failure:
  assumes "get_object ev RAW_BUCKET RAW_KEY = Inl e \<or> get_object ev RAW_BUCKET RAW_KEY = Inr (Inl e)"
  shows "get_all_facilities_try ev w = Inl (e, emit Info_reading w)"
  using assms by (auto simp add: get_all_facilities_try_def Let_def)

lemma main_raises_in_filter:
  assumes "main ev w = Inl (e, w')"
  shows "\<exists>facilities w1. get_all_facilities ev (emit Info_starting w) = Inr (facilities, w1) \<and>
           filter_expiring_facilities ev facilities w1 = Inl (e, w')"
proof -
  obtain fs w1 where g: "get_all_facilities ev (emit Info_starting w) = Inr (fs, w1)"
    using get_all_facilities_returns by blast
  show ?thesis
  proof (cases "filter_expiring_facilities ev fs w1")
    case (Inl ew)
    with g assms show ?thesis by (simp add: main_def)
  next
    case (Inr rw)
    obtain r w2 where rw: "rw = (r, w2)" by (cases rw)
    obtain w3 where "write_to_s3 ev r w2 = Inr (JNull, w3)" using write_to_s3_returns by blast
    with g Inr rw assms show ?thesis by (simp add: main_def)
  qed
qed

lemma main_after_fetch_failure:
  assumes "get_all_facilities_try ev (emit Info_starting w) = Inl (e, w1)"
    and "\<forall>k. year (dt_date (now_at ev k)) < 9999"
  shows "\<exists>w'. main ev w = Inr ((), w')"
proof -
  let ?w2 = "emit (case e of ClientError m \<Rightarrow> Error_read_client e | _ \<Rightarrow> Error_get_all e) w1"
  have g: "get_all_facilities ev (emit Info_starting w) = Inr ([], ?w2)"
    using assms(1) by (rule get_all_facilities_absorbs)
  obtain w3 where f: "filter_expiring_facilities ev [] ?w2 = Inr ([], w3)"
    using filter_expiring_facilities_empty [OF assms(2)] by blast
  obtain w4 where "write_to_s3 ev [] w3 = Inr (JNull, w4)" using write_to_s3_returns by blast
  with g f show ?thesis by (simp add: main_def)
qed




section \<open>The aggregation job\<close>

lemma fetch_polled_state:
  assumes "polled_state ev qid (athena_fetches w) = Inr state"
  shows "\<exists>response. fetch_execution ev qid w =
            Inr (response, w\<lparr>athena_fetches := Suc (athena_fetches w)\<rparr>) \<and>
          execution_field response (str ''Status'') (str ''State'') = Inr state"
  using assms by (auto simp add: polled_state_def fetch_execution_def Let_def split: sum.splits)

lemma wait_for_query_loop_goes_on:
  assumes "polled_state ev qid (athena_fetches w) = Inr state" and "terminal_state state = None"
    and "0 \<le> delay"
  shows "wait_for_query_loop ev qid delay (attempt # attempts) w =
         wait_for_query_loop ev qid delay attempts
           ((emit (Info_query_state state (attempt + 1))
               (w\<lparr>athena_fetches := Suc (athena_fetches w)\<rparr>))
            \<lparr>slept := slept w @ [delay]\<rparr>)"
  using fetch_polled_state [OF assms(1)] assms(2,3)
  by (auto simp add: sleep_def emit_def Let_def)

lemma wait_for_query_loop_ends:
  assumes "polled_state ev qid (athena_fetches w) = Inr state" and "terminal_state state = Some s"
  shows "wait_for_query_loop ev qid delay (attempt # attempts) w =
         Inr (s, emit (Info_query_state state (attempt + 1))
                   (w\<lparr>athena_fetches := Suc (athena_fetches w)\<rparr>))"
  using fetch_polled_state [OF assms(1)] assms(2)
  by (auto simp add: Let_def)

lemma wait_for_query_loop_first_terminal:
  assumes "\<forall>i<n. \<exists>st. polled_state ev qid (athena_fetches w + i) = Inr st \<and> terminal_state st = None"
    and "polled_state ev qid (athena_fetches w + n) = Inr state"
    and "terminal_state state = Some s" and "n < length attempts" and "0 \<le> delay"
  shows "\<exists>w'. wait_for_query_loop ev qid delay attempts w = Inr (s, w') \<and>
           athena_fetches w' = athena_fetches w + n + 1 \<and>
           slept w' = slept w @ replicate n delay"
  using assms(1,2,4)
proof (induction n arbitrary: attempts w)
  case 0
  then obtain a as where "attempts = a # as" by (cases attempts) auto
  with 0 assms(3) show ?case
    using wait_for_query_loop_ends [of ev qid w state s delay a as] by (simp add: emit_def)
next
  case (Suc n)
  then obtain a as where as: "attempts = a # as" by (cases attempts) auto
  from Suc.prems(1) obtain st where st: "polled_state ev qid (athena_fetches w) = Inr st"
    and nt: "terminal_state st = None" by force
  let ?w = "(emit (Info_query_state st (a + 1)) (w\<lparr>athena_fetches := Suc (athena_fetches w)\<rparr>))
            \<lparr>slept := slept w @ [delay]\<rparr>"
  have f: "athena_fetches ?w = Suc (athena_fetches w)" by (simp add: emit_def)
  have 1: "\<forall>i<n. \<exists>st. polled_state ev qid (athena_fetches ?w + i) = Inr st \<and> terminal_state st = None"
  proof (intro allI impI)
    fix i assume "i < n"
    then have "Suc i < Suc n" by simp
    with Suc.prems(1) show "\<exists>st. polled_state ev qid (athena_fetches ?w + i) = Inr st \<and> terminal_state st = None"
      unfolding f by (metis add_Suc_shift)
  qed
  have 2: "polled_state ev qid (athena_fetches ?w + n) = Inr state"
    using Suc.prems(2) unfolding f by simp
  have 3: "n < length as" using Suc.prems(3) as by simp
  from Suc.IH [OF 1 2 3] obtain w' where
    "wait_for_query_loop ev qid delay as ?w = Inr (s, w')"
    "athena_fetches w' = athena_fetches ?w + n + 1" "slept w' = slept ?w @ replicate n delay"
    by blast
  then show ?case
    using wait_for_query_loop_goes_on [OF st nt assms(5), of a as] as f
    by (simp add: emit_def replicate_app_Cons_same)
qed

lemma wait_for_query_loop_times_out:
  assumes "\<forall>i<length attempts. \<exists>st. polled_state ev qid (athena_fetches w + i) = Inr st \<and>
              terminal_state st = None"
    and "0 \<le> delay"
  shows "\<exists>w'. wait_for_query_loop ev qid delay attempts w =
                Inl (TimeoutError (str ''Athena query timed out''), w') \<and>
           athena_fetches w' = athena_fetches w + length attempts \<and>
           slept w' = slept w @ replicate (length attempts) delay \<and>
           s3_calls w' = s3_calls w"
  using assms(1)
proof (induction attempts arbitrary: w)
  case Nil
  then show ?case by simp
next
  case (Cons a as)
  from Cons.prems obtain st where st: "polled_state ev qid (athena_fetches w) = Inr st"
    and nt: "terminal_state st = None" by force
  let ?w = "(emit (Info_query_state st (a + 1)) (w\<lparr>athena_fetches := Suc (athena_fetches w)\<rparr>))
            \<lparr>slept := slept w @ [delay]\<rparr>"
  have f: "athena_fetches ?w = Suc (athena_fetches w)" by (simp add: emit_def)
  have 1: "\<forall>i<length as. \<exists>st. polled_state ev qid (athena_fetches ?w + i) = Inr st \<and>
              terminal_state st = None"
  proof (intro allI impI)
    fix i assume "i < length as"
    then have "Suc i < length (a # as)" by simp
    with Cons.prems show "\<exists>st. polled_state ev qid (athena_fetches ?w + i) = Inr st \<and> terminal_state st = None"
      unfolding f by (metis add_Suc_shift)
  qed
  from Cons.IH [OF 1] obtain w' where
    "wait_for_query_loop ev qid delay as ?w = Inl (TimeoutError (str ''Athena query timed out''), w')"
    "athena_fetches w' = athena_fetches ?w + length as"
    "slept w' = slept ?w @ replicate (length as) delay" "s3_calls w' = s3_calls ?w"
    by blast
  then show ?case
    using wait_for_query_loop_goes_on [OF st nt assms(2), of a as] f
    by (simp add: emit_def replicate_app_Cons_same)
qed

lemma terminal_state_cases:
  "terminal_state state = Some s \<Longrightarrow>
   state = JStr s \<and> (s = SUCCEEDED \<or> s = FAILED \<or> s = CANCELLED)"
  by (cases state) (auto split: if_splits)

lemma wait_for_query_loop_frame:
  "wait_for_query_loop ev qid delay attempts w = Inr (s, w') \<Longrightarrow>
   (s = SUCCEEDED \<or> s = FAILED \<or> s = CANCELLED) \<and> s3_calls w' = s3_calls w \<and>
   clock_reads w' = clock_reads w"
proof (induction attempts arbitrary: w)
  case Nil
  then show ?case by simp
next
  case (Cons a as)
  from Cons.prems obtain response w1 state where
    f: "fetch_execution ev qid w = Inr (response, w1)"
    and e: "execution_field response (str ''Status'') (str ''State'') = Inr state"
    by (auto split: sum.splits prod.splits)
  have w1: "s3_calls w1 = s3_calls w \<and> clock_reads w1 = clock_reads w"
    using f by (auto simp add: fetch_execution_def Let_def split: sum.splits)
  show ?case
  proof (cases "terminal_state state")
    case (Some t)
    with Cons.prems f e have "t = s" and "w' = emit (Info_query_state state (a + 1)) w1"
      by (simp_all add: Let_def)
    with Some w1 terminal_state_cases [OF Some] show ?thesis by (simp add: emit_def)
  next
    case None
    with Cons.prems f e obtain w3 where
      s: "sleep delay (emit (Info_query_state state (a + 1)) w1) = Inr ((), w3)"
      and l: "wait_for_query_loop ev qid delay as w3 = Inr (s, w')"
      by (auto simp add: Let_def split: sum.splits prod.splits)
    from s have "s3_calls w3 = s3_calls w1 \<and> clock_reads w3 = clock_reads w1"
      by (auto simp add: sleep_def emit_def split: if_splits)
    with Cons.IH [OF l] w1 show ?thesis by simp
  qed
qed

lemma start_athena_query_frame:
  "start_athena_query ev w = Inr (qid, w1) \<Longrightarrow>
   s3_calls w1 = s3_calls w \<and> clock_reads w1 = clock_reads w"
  by (auto simp add: start_athena_query_def Let_def emit_def split: sum.splits)

lemma decimal_digit: "n < 10 \<Longrightarrow> decimal n = [48 + n]"
  by (simp add: decimal.simps)

lemma zfill_two: "n < 100 \<Longrightarrow> zfill 2 (decimal n) = two_digits n"
proof (cases "n < 10")
  case True
  then show ?thesis by (simp add: decimal_digit zfill_def two_digits_def)
next
  case False
  assume "n < 100"
  with False have "n div 10 < 10" by simp
  with False show ?thesis
    by (simp add: decimal.simps [of n] decimal_digit zfill_def two_digits_def)
qed

lemma decimal_two: "10 \<le> n \<Longrightarrow> n < 100 \<Longrightarrow> decimal n = [48 + n div 10, 48 + n mod 10]"
  by (simp add: decimal.simps [of n] decimal_digit)

lemma decimal_three:
  assumes "100 \<le> n" and "n < 1000"
  shows "decimal n = [48 + n div 100, 48 + n div 10 mod 10, 48 + n mod 10]"
proof -
  have a: "10 \<le> n div 10" "n div 10 < 100" using assms by simp_all
  have b: "n div 10 div 10 = n div 100" by (simp add: div_mult2_eq [symmetric])
  show ?thesis
    using assms by (simp add: decimal.simps [of n] decimal_two [OF a] b)
qed

lemma decimal_four:
  assumes "1000 \<le> n" and "n < 10000"
  shows "decimal n = [48 + n div 1000, 48 + n div 100 mod 10, 48 + n div 10 mod 10, 48 + n mod 10]"
proof -
  have a: "100 \<le> n div 10" "n div 10 < 1000" using assms by simp_all
  have b: "n div 10 div 100 = n div 1000" "n div 10 div 10 = n div 100"
    by (simp_all add: div_mult2_eq [symmetric])
  show ?thesis
    using assms by (simp add: decimal.simps [of n] decimal_three [OF a] b)
qed

lemma replicate_small: "replicate 2 x = [x, x]" "replicate 3 x = [x, x, x]"
  by (simp_all add: numeral_2_eq_2 numeral_3_eq_3)

lemma zfill_four: "n < 10000 \<Longrightarrow> zfill 4 (decimal n) = four_digits n"
proof -
  assume n: "n < 10000"
  consider "n < 10" | "10 \<le> n \<and> n < 100" | "100 \<le> n \<and> n < 1000" | "1000 \<le> n" by linarith
  then show ?thesis
  proof cases
    case 1
    then have d: "decimal n = [48 + n]" by (simp add: decimal_digit)
    from 1 have e: "n div 1000 = 0" "n div 100 = 0" "n div 10 = 0" "n mod 10 = n" by simp_all
    show ?thesis unfolding d e zfill_def four_digits_def by (simp add: replicate_small)
  next
    case 2
    then have d: "decimal n = [48 + n div 10, 48 + n mod 10]" by (simp add: decimal_two)
    from 2 have e: "n div 1000 = 0" "n div 100 = 0" by simp_all
    from 2 have "n div 10 < 10" by (simp add: less_mult_imp_div_less)
    then have f: "n div 10 mod 10 = n div 10" by simp
    show ?thesis unfolding d e f zfill_def four_digits_def by (simp add: replicate_small)
  next
    case 3
    then have d: "decimal n = [48 + n div 100, 48 + n div 10 mod 10, 48 + n mod 10]"
      by (simp add: decimal_three)
    from 3 have e: "n div 1000 = 0" by simp
    from 3 have "n div 100 < 10" by (simp add: less_mult_imp_div_less)
    then have f: "n div 100 mod 10 = n div 100" by simp
    show ?thesis unfolding d e f zfill_def four_digits_def by simp
  next
    case 4
    with n have d: "decimal n =
        [48 + n div 1000, 48 + n div 100 mod 10, 48 + n div 10 mod 10, 48 + n mod 10]"
      by (simp add: decimal_four)
    show ?thesis unfolding d zfill_def four_digits_def by simp
  qed
qed

lemma strftime_compact_digits:
  assumes "valid_datetime t"
  shows "strftime_compact t =
           four_digits (year (dt_date t)) @ two_digits (month (dt_date t)) @
           two_digits (day (dt_date t)) @ str ''T'' @ two_digits (hour t) @
           two_digits (minute t) @ two_digits (second t) @ str ''Z''"
proof -
  from assms have y: "year (dt_date t) < 10000" and m: "month (dt_date t) < 100"
    and h: "hour t < 100" and mi: "minute t < 100" and s: "second t < 100"
    by (simp_all add: valid_datetime_def valid_date_def)
  from assms have "day (dt_date t) \<le> days_in_month (year (dt_date t)) (month (dt_date t))"
    by (simp add: valid_datetime_def valid_date_def)
  moreover have "days_in_month (year (dt_date t)) (month (dt_date t)) \<le> 31"
    by (simp add: days_in_month_def)
  ultimately have d: "day (dt_date t) < 100" by linarith
  show ?thesis
    by (simp add: strftime_compact_def zfill_four [OF y] zfill_two [OF m] zfill_two [OF d]
        zfill_two [OF h] zfill_two [OF mi] zfill_two [OF s])
qed

lemma wait_for_query_frame:
  "wait_for_query ev qid max_tries delay w = Inr (s, w') \<Longrightarrow>
   (s = SUCCEEDED \<or> s = FAILED \<or> s = CANCELLED) \<and> s3_calls w' = s3_calls w \<and>
   clock_reads w' = clock_reads w"
  unfolding wait_for_query_def by (rule wait_for_query_loop_frame)

lemma dest_key_archive_key:
  assumes "valid_datetime t"
  shows "FINAL_RESULTS_PREFIX @ str ''state_counts_'' @ strftime_compact t @ str ''.csv'' =
         archive_key t"
  by (simp add: strftime_compact_digits [OF assms] archive_key_def FINAL_RESULTS_PREFIX_def str_def)

lemma copy_results_to_final_location_result:
  assumes "get_query_execution ev (athena_fetches w) qid = Inr execution"
    and "execution_field execution (str ''ResultConfiguration'') (str ''OutputLocation'') =
           Inr (JStr location)"
    and "urlparse ev location = Inr (src_bucket, path)"
    and "valid_datetime (now_at ev (clock_reads w))"
    and "copy_object ev FINAL_RESULTS_BUCKET (archive_key (now_at ev (clock_reads w))) src_bucket
           (dropWhile (\<lambda>c. c = 47) path) = Inr ()"
  shows "\<exists>w'. copy_results_to_final_location ev qid w =
            Inr (str ''s3://'' @ FINAL_RESULTS_BUCKET @ str ''/'' @
                   archive_key (now_at ev (clock_reads w)), w') \<and>
          s3_calls w' = s3_calls w @
            [Copy_object FINAL_RESULTS_BUCKET (archive_key (now_at ev (clock_reads w))) src_bucket
               (dropWhile (\<lambda>c. c = 47) path)]"
  using assms(1,2,3,5) dest_key_archive_key [OF assms(4)]
  by (simp add: copy_results_to_final_location_def fetch_execution_def read_clock_def Let_def
      emit_def)

section \<open>The properties\<close>

text \<open>
  C1: \<open>check_if_expiring\<close> never raises, and it returns true exactly when its argument
  parses as an ISO date that is on or before the date of the clock's reading plus six
  months. An argument that does not parse (a malformed string, or the \<open>None\<close> of a missing
  \<open>valid_until\<close>) gives false, with the error logged.
\<close>

theorem check_if_expiring_iff:
  "(\<exists>w'. check_if_expiring ev v w =
      Inr ((\<exists>dt cutoff. py_fromisoformat ev v = Inr dt \<and>
             add_relativedelta_months (dt_date (now_at ev (clock_reads w))) 6 = Inr cutoff \<and>
             date_le (dt_date dt) cutoff), w')) \<and>
   (\<forall>e. py_fromisoformat ev v = Inl e \<longrightarrow>
      check_if_expiring ev v w = Inr (False, emit (Error_checking_expiring e v) w)) \<and>
   check_if_expiring ev JNull w = Inr (False, emit (Error_checking_expiring TypeError JNull) w)"
proof (intro conjI allI impI)
  show "\<exists>w'. check_if_expiring ev v w =
      Inr ((\<exists>dt cutoff. py_fromisoformat ev v = Inr dt \<and>
             add_relativedelta_months (dt_date (now_at ev (clock_reads w))) 6 = Inr cutoff \<and>
             date_le (dt_date dt) cutoff), w')"
    by (auto simp add: check_if_expiring_result expiring_on_def on_or_before_def
        split: sum.splits)
next
  fix e assume "py_fromisoformat ev v = Inl e"
  then show "check_if_expiring ev v w = Inr (False, emit (Error_checking_expiring e v) w)"
    by (simp add: check_if_expiring_result expiring_on_def on_or_before_def split: sum.splits)
next
  show "check_if_expiring ev JNull w = Inr (False, emit (Error_checking_expiring TypeError JNull) w)"
    by (simp add: check_if_expiring_result expiring_on_def on_or_before_def split: sum.splits)
qed

theorem check_if_expiring_iff_witness:
  "check_if_expiring sample_env (JStr (str ''next spring'')) world0 =
     Inr (False, emit (Error_checking_expiring ValueError (JStr (str ''next spring''))) world0) \<and>
   (\<exists>w'. check_if_expiring sample_env (JStr (str ''2024-01-01'')) world0 = Inr (True, w')) \<and>
   (\<exists>w'. check_if_expiring january_env (JStr (str ''2024-01-01'')) world0 = Inr (False, w'))"
proof -
  have p: "py_fromisoformat sample_env (JStr (str ''next spring'')) = Inl ValueError"
    by (simp add: run_defs)
  have q: "(\<exists>dt cutoff. py_fromisoformat sample_env (JStr (str ''2024-01-01'')) = Inr dt \<and>
      add_relativedelta_months (dt_date (now_at sample_env (clock_reads world0))) 6 = Inr cutoff \<and>
      date_le (dt_date dt) cutoff) = True"
    by (simp add: run_defs)
  have r: "(\<exists>dt cutoff. py_fromisoformat january_env (JStr (str ''2024-01-01'')) = Inr dt \<and>
      add_relativedelta_months (dt_date (now_at january_env (clock_reads world0))) 6 = Inr cutoff \<and>
      date_le (dt_date dt) cutoff) = False"
    by (simp add: run_defs)
  have 1: "check_if_expiring sample_env (JStr (str ''next spring'')) world0 =
      Inr (False, emit (Error_checking_expiring ValueError (JStr (str ''next spring''))) world0)"
    using check_if_expiring_iff [of sample_env "JStr (str ''next spring'')" world0] p by blast
  have 2: "\<exists>w'. check_if_expiring sample_env (JStr (str ''2024-01-01'')) world0 = Inr (True, w')"
    using check_if_expiring_iff [of sample_env "JStr (str ''2024-01-01'')" world0]
    unfolding q by blast
  have 3: "\<exists>w'. check_if_expiring january_env (JStr (str ''2024-01-01'')) world0 = Inr (False, w')"
    using check_if_expiring_iff [of january_env "JStr (str ''2024-01-01'')" world0]
    unfolding r by blast
  from 1 2 3 show ?thesis by blast
qed




text \<open>
  C2, as stated: the output holds exactly the facilities with an accreditation that
  satisfies the expiry predicate. It fails when the date of the clock changes during the
  pass: of two facility records with the same accreditation, the one checked on 31 July
  2023 is left out and the one checked on 1 August 2023 is kept, so the output is the
  facilities with an accreditation expiring as of \<open>today\<close> for no date \<open>today\<close>.
\<close>

theorem exactly_expiring_counterexample:
  "list_all is_facility_record
     [accredited ''A'' ''2024-02-01'', accredited ''B'' ''2024-02-01''] \<and>
   filter_expiring_facilities rollover_env
     [accredited ''A'' ''2024-02-01'', accredited ''B'' ''2024-02-01''] world0 =
   Inr ([accredited ''B'' ''2024-02-01''],
        \<lparr>clock_reads = 4, athena_fetches = 0,
           logged =
             [Info_filtering \<lparr>year = 2024, month = 1, day = 31\<rparr>,
              Info_accreditation_expiring (JStr (str ''B'')) JNull (JStr (str ''2024-02-01'')),
              Info_found_expiring 1 \<lparr>year = 2024, month = 2, day = 1\<rparr>],
           printed = [], slept = [], s3_calls = []\<rparr>) \<and>
   \<not> (\<exists>today w'.
        filter_expiring_facilities rollover_env
          [accredited ''A'' ''2024-02-01'', accredited ''B'' ''2024-02-01''] world0 =
        Inr (filter (has_expiring rollover_env today)
               [accredited ''A'' ''2024-02-01'', accredited ''B'' ''2024-02-01''], w'))"
proof -
  let ?A = "accredited ''A'' ''2024-02-01''"
  let ?B = "accredited ''B'' ''2024-02-01''"
  have recs: "list_all is_facility_record [?A, ?B]"
    by (simp add: is_facility_record_def accredited_def str_def)
  have acc: "accreditations_of ?A = accreditations_of ?B"
    by (simp add: accreditations_of_def accredited_def str_def)
  have run: "filter_expiring_facilities rollover_env [?A, ?B] world0 =
    Inr ([?B],
      \<lparr>clock_reads = 4, athena_fetches = 0,
         logged =
           [Info_filtering \<lparr>year = 2024, month = 1, day = 31\<rparr>,
            Info_accreditation_expiring (JStr (str ''B'')) JNull (JStr (str ''2024-02-01'')),
            Info_found_expiring 1 \<lparr>year = 2024, month = 2, day = 1\<rparr>],
         printed = [], slept = [], s3_calls = []\<rparr>)"
    by (simp add: run_defs)
  have same: "has_expiring rollover_env today ?A = has_expiring rollover_env today ?B" for today
    by (simp add: has_expiring_def acc)
  have differs: "filter (has_expiring rollover_env today) [?A, ?B] \<noteq> [?B]" for today
    using same [of today] by (simp add: accredited_def str_def)
  have none: "\<not> (\<exists>today w'.
        filter_expiring_facilities rollover_env [?A, ?B] world0 =
        Inr (filter (has_expiring rollover_env today) [?A, ?B], w'))"
  proof
    assume "\<exists>today w'.
        filter_expiring_facilities rollover_env [?A, ?B] world0 =
        Inr (filter (has_expiring rollover_env today) [?A, ?B], w')"
    then obtain today w' where
      "filter_expiring_facilities rollover_env [?A, ?B] world0 =
        Inr (filter (has_expiring rollover_env today) [?A, ?B], w')"
      by blast
    then have "filter (has_expiring rollover_env today) [?A, ?B] = [?B]"
      unfolding run by (simp del: filter.simps)
    with differs [of today] show False by blast
  qed
  from recs run none show ?thesis by blast
qed

text \<open>
  C2, amended: any list \<open>filter_expiring_facilities\<close> returns is a subsequence of its
  input, in the order of the input, and the scan of a facility's accreditations that has
  found a match does not look at the accreditations after it. Over facility records, with
  the clock on one date \<open>today\<close> for the whole pass, the output holds exactly the
  facilities that have at least one accreditation expiring as of \<open>today\<close>.
\<close>

theorem filter_expiring_facilities_selects:
  assumes "\<forall>k. dt_date (now_at ev k) = today"
    and "add_relativedelta_months today 6 = Inr cutoff"
    and "list_all is_facility_record L"
  shows "(\<exists>w'. filter_expiring_facilities ev L w = Inr (filter (has_expiring ev today) L, w')) \<and>
         subseq (filter (has_expiring ev today) L) L \<and>
         (\<forall>ev' L' w1 r w2. filter_expiring_facilities ev' L' w1 = Inr (r, w2) \<longrightarrow> subseq r L') \<and>
         (\<forall>facility xs ys w1 w2.
             scan_accreditations ev facility xs w1 = Inr (True, w2) \<longrightarrow>
             scan_accreditations ev facility (xs @ ys) w1 = Inr (True, w2))"
  using filter_expiring_facilities_constant_clock [OF assms] scan_accreditations_stops
    filter_expiring_facilities_subseq
  by (simp add: subseq_filter_left)

theorem filter_expiring_facilities_selects_witness:
  "(\<exists>w'. filter_expiring_facilities sample_env
           [accredited ''A'' ''2024-01-01'', accredited ''B'' ''2024-03-01''] world0 =
         Inr ([accredited ''A'' ''2024-01-01''], w')) \<and>
   subseq [accredited ''A'' ''2024-01-01'']
     [accredited ''A'' ''2024-01-01'', accredited ''B'' ''2024-03-01'']"
proof -
  let ?today = "\<lparr>year = 2023, month = 8, day = 1\<rparr>"
  let ?L = "[accredited ''A'' ''2024-01-01'', accredited ''B'' ''2024-03-01'']"
  have c: "\<forall>k. dt_date (now_at sample_env k) = ?today"
    by (simp add: run_defs)
  have a: "add_relativedelta_months ?today 6 = Inr \<lparr>year = 2024, month = 2, day = 1\<rparr>"
    by (simp add: run_defs)
  have r: "list_all is_facility_record ?L"
    by (simp add: run_defs notion_defs)
  have f: "filter (has_expiring sample_env ?today) ?L = [accredited ''A'' ''2024-01-01'']"
    by (simp add: run_defs notion_defs)
  show ?thesis
    using filter_expiring_facilities_selects [OF c a r, of world0] unfolding f by blast
qed

text \<open>
  C3, as stated: one cutoff is used for every record of a pass. It fails when the date of
  the clock changes during the pass: of two facilities with the same accreditation, the one
  checked on 31 July 2023 is left out and the one checked on 1 August 2023 is kept, which no
  single cutoff does.
\<close>

theorem single_cutoff_counterexample:
  "accreditations_of (accredited ''A'' ''2024-02-01'') =
     accreditations_of (accredited ''B'' ''2024-02-01'') \<and>
   filter_expiring_facilities rollover_env
     [accredited ''A'' ''2024-02-01'', accredited ''B'' ''2024-02-01''] world0 =
   Inr ([accredited ''B'' ''2024-02-01''],
        \<lparr>clock_reads = 4, athena_fetches = 0,
           logged =
             [Info_filtering \<lparr>year = 2024, month = 1, day = 31\<rparr>,
              Info_accreditation_expiring (JStr (str ''B'')) JNull (JStr (str ''2024-02-01'')),
              Info_found_expiring 1 \<lparr>year = 2024, month = 2, day = 1\<rparr>],
           printed = [], slept = [], s3_calls = []\<rparr>) \<and>
   \<not> (\<exists>cutoff w'.
        filter_expiring_facilities rollover_env
          [accredited ''A'' ''2024-02-01'', accredited ''B'' ''2024-02-01''] world0 =
        Inr (filter (has_on_or_before rollover_env cutoff)
               [accredited ''A'' ''2024-02-01'', accredited ''B'' ''2024-02-01''], w'))"
proof -
  have acc: "accreditations_of (accredited ''A'' ''2024-02-01'') =
      accreditations_of (accredited ''B'' ''2024-02-01'')"
    by (simp add: accreditations_of_def accredited_def str_def)
  have run: "filter_expiring_facilities rollover_env
      [accredited ''A'' ''2024-02-01'', accredited ''B'' ''2024-02-01''] world0 =
    Inr ([accredited ''B'' ''2024-02-01''],
      \<lparr>clock_reads = 4, athena_fetches = 0,
         logged =
           [Info_filtering \<lparr>year = 2024, month = 1, day = 31\<rparr>,
            Info_accreditation_expiring (JStr (str ''B'')) JNull (JStr (str ''2024-02-01'')),
            Info_found_expiring 1 \<lparr>year = 2024, month = 2, day = 1\<rparr>],
         printed = [], slept = [], s3_calls = []\<rparr>)"
    by (simp add: run_defs)
  have same: "has_on_or_before rollover_env cutoff (accredited ''A'' ''2024-02-01'') =
      has_on_or_before rollover_env cutoff (accredited ''B'' ''2024-02-01'')" for cutoff
    by (simp add: has_on_or_before_def acc)
  have differs: "filter (has_on_or_before rollover_env cutoff)
          [accredited ''A'' ''2024-02-01'', accredited ''B'' ''2024-02-01''] \<noteq>
        [accredited ''B'' ''2024-02-01'']" for cutoff
    using same [of cutoff] by (simp add: accredited_def str_def)
  have none: "\<not> (\<exists>cutoff w'.
        filter_expiring_facilities rollover_env
          [accredited ''A'' ''2024-02-01'', accredited ''B'' ''2024-02-01''] world0 =
        Inr (filter (has_on_or_before rollover_env cutoff)
               [accredited ''A'' ''2024-02-01'', accredited ''B'' ''2024-02-01''], w'))"
  proof
    assume "\<exists>cutoff w'.
        filter_expiring_facilities rollover_env
          [accredited ''A'' ''2024-02-01'', accredited ''B'' ''2024-02-01''] world0 =
        Inr (filter (has_on_or_before rollover_env cutoff)
               [accredited ''A'' ''2024-02-01'', accredited ''B'' ''2024-02-01''], w')"
    then obtain cutoff w' where
      "filter_expiring_facilities rollover_env
          [accredited ''A'' ''2024-02-01'', accredited ''B'' ''2024-02-01''] world0 =
        Inr (filter (has_on_or_before rollover_env cutoff)
               [accredited ''A'' ''2024-02-01'', accredited ''B'' ''2024-02-01''], w')"
      by blast
    then have "filter (has_on_or_before rollover_env cutoff)
          [accredited ''A'' ''2024-02-01'', accredited ''B'' ''2024-02-01''] =
        [accredited ''B'' ''2024-02-01'']"
      unfolding run by (simp del: filter.simps)
    with differs [of cutoff] show False by blast
  qed
  from acc run none show ?thesis by blast
qed

text \<open>
  C3, amended: every call of \<open>check_if_expiring\<close> whose argument parses takes a reading of
  the clock of its own and compares with the date of that reading plus six months; the
  records of a pass are judged against one cutoff when the date of the clock does not
  change during the pass.
\<close>

theorem cutoff_per_check:
  "(\<forall>dt. py_fromisoformat ev v = Inr dt \<longrightarrow>
      (\<exists>w'. check_if_expiring ev v w =
               Inr ((case add_relativedelta_months (dt_date (now_at ev (clock_reads w))) 6 of
                       Inl e \<Rightarrow> False
                     | Inr cutoff \<Rightarrow> date_le (dt_date dt) cutoff), w') \<and>
             clock_reads w' = Suc (clock_reads w))) \<and>
   ((\<forall>k. dt_date (now_at ev k) = today) \<and> add_relativedelta_months today 6 = Inr cutoff \<and>
    list_all is_facility_record L \<longrightarrow>
      (\<exists>w'. filter_expiring_facilities ev L w =
               Inr (filter (has_on_or_before ev cutoff) L, w')))"
proof (intro conjI allI impI)
  fix dt assume "py_fromisoformat ev v = Inr dt"
  then show "\<exists>w'. check_if_expiring ev v w =
               Inr ((case add_relativedelta_months (dt_date (now_at ev (clock_reads w))) 6 of
                       Inl e \<Rightarrow> False
                     | Inr cutoff \<Rightarrow> date_le (dt_date dt) cutoff), w') \<and>
             clock_reads w' = Suc (clock_reads w)"
    by (simp add: check_if_expiring_result expiring_on_def on_or_before_def emit_def
        split: sum.splits)
next
  assume h: "(\<forall>k. dt_date (now_at ev k) = today) \<and>
    add_relativedelta_months today 6 = Inr cutoff \<and> list_all is_facility_record L"
  then show "\<exists>w'. filter_expiring_facilities ev L w =
               Inr (filter (has_on_or_before ev cutoff) L, w')"
    using filter_expiring_facilities_constant_clock [of ev today cutoff L w]
      has_expiring_on_or_before [of today cutoff ev]
    by simp
qed

theorem cutoff_per_check_witness:
  "(\<exists>w'. check_if_expiring rollover_env (JStr (str ''2024-02-01'')) (world0\<lparr>clock_reads := 1\<rparr>) =
           Inr (False, w') \<and> clock_reads w' = 2) \<and>
   (\<exists>w'. check_if_expiring rollover_env (JStr (str ''2024-02-01'')) (world0\<lparr>clock_reads := 2\<rparr>) =
           Inr (True, w') \<and> clock_reads w' = 3) \<and>
   (\<exists>w'. filter_expiring_facilities january_env [accredited ''A'' ''2024-01-01''] world0 =
           Inr ([], w'))"
proof -
  let ?v = "JStr (str ''2024-02-01'')"
  let ?today = "\<lparr>year = 2023, month = 1, day = 1\<rparr>"
  let ?cutoff = "\<lparr>year = 2023, month = 7, day = 1\<rparr>"
  have p: "py_fromisoformat rollover_env ?v = Inr (midnight \<lparr>year = 2024, month = 2, day = 1\<rparr>)"
    by (simp add: run_defs)
  have 1: "\<exists>w'. check_if_expiring rollover_env ?v (world0\<lparr>clock_reads := 1\<rparr>) =
           Inr (False, w') \<and> clock_reads w' = 2"
    using cutoff_per_check [of rollover_env ?v "world0\<lparr>clock_reads := 1\<rparr>"] p
    by (simp add: run_defs)
  have 2: "\<exists>w'. check_if_expiring rollover_env ?v (world0\<lparr>clock_reads := 2\<rparr>) =
           Inr (True, w') \<and> clock_reads w' = 3"
    using cutoff_per_check [of rollover_env ?v "world0\<lparr>clock_reads := 2\<rparr>"] p
    by (simp add: run_defs)
  have c: "\<forall>k. dt_date (now_at january_env k) = ?today"
    by (simp add: run_defs)
  have a: "add_relativedelta_months ?today 6 = Inr ?cutoff"
    by (simp add: run_defs)
  have r: "list_all is_facility_record [accredited ''A'' ''2024-01-01'']"
    by (simp add: run_defs notion_defs)
  have f: "filter (has_on_or_before january_env ?cutoff) [accredited ''A'' ''2024-01-01''] = []"
    by (simp add: run_defs notion_defs)
  have 3: "\<exists>w'. filter_expiring_facilities january_env [accredited ''A'' ''2024-01-01''] world0 =
           Inr ([], w')"
    using cutoff_per_check [of january_env JNull world0 ?today ?cutoff
        "[accredited ''A'' ''2024-01-01'']"] c a r
    unfolding f by blast
  from 1 2 3 show ?thesis by blast
qed

text \<open>
  C9: \<open>get_all_facilities\<close> never raises, and a fetch that fails (the call, the read of the
  body or anything else in the \<open>try\<close> block) is logged and gives the empty list;
  \<open>write_to_s3\<close> returns \<open>None\<close> in every case, a failed write being logged. The job can
  raise only from the filter, and after a failed fetch it ends without raising (the years
  of the clock staying below 9999).
\<close>

theorem fetch_and_write_failures_absorbed:
  "(\<exists>r w'. get_all_facilities ev w = Inr (r, w')) \<and>
   (\<forall>e w1. get_all_facilities_try ev w = Inl (e, w1) \<longrightarrow>
      get_all_facilities ev w =
        Inr ([], emit (case e of ClientError m \<Rightarrow> Error_read_client e | _ \<Rightarrow> Error_get_all e) w1)) \<and>
   (\<forall>e. get_object ev RAW_BUCKET RAW_KEY = Inl e \<or>
        get_object ev RAW_BUCKET RAW_KEY = Inr (Inl e) \<longrightarrow>
      get_all_facilities ev w =
        Inr ([], emit (case e of ClientError m \<Rightarrow> Error_read_client e | _ \<Rightarrow> Error_get_all e)
                   (emit Info_reading w))) \<and>
   (\<exists>w'. write_to_s3 ev data w = Inr (JNull, w')) \<and>
   (\<forall>e. put_object ev TRANSFORMED_BUCKET TRANSFORMED_KEY (json_dumps ev (JArr data)) = Inl e \<longrightarrow>
      write_to_s3 ev data w =
        Inr (JNull, emit (case e of ClientError m \<Rightarrow> Error_write_client e | _ \<Rightarrow> Error_write e)
                      (emit (Info_writing (length data)) w))) \<and>
   (\<forall>e w'. main ev w = Inl (e, w') \<longrightarrow>
      (\<exists>facilities w1.
          get_all_facilities ev (emit Info_starting w) = Inr (facilities, w1) \<and>
          filter_expiring_facilities ev facilities w1 = Inl (e, w'))) \<and>
   (\<forall>e w1. get_all_facilities_try ev (emit Info_starting w) = Inl (e, w1) \<and>
           (\<forall>k. year (dt_date (now_at ev k)) < 9999) \<longrightarrow>
      (\<exists>w'. main ev w = Inr ((), w')))"
proof (intro conjI allI impI)
  show "\<exists>r w'. get_all_facilities ev w = Inr (r, w')"
    by (rule get_all_facilities_returns)
next
  fix e w1 assume "get_all_facilities_try ev w = Inl (e, w1)"
  then show "get_all_facilities ev w =
        Inr ([], emit (case e of ClientError m \<Rightarrow> Error_read_client e | _ \<Rightarrow> Error_get_all e) w1)"
    by (rule get_all_facilities_absorbs)
next
  fix e assume "get_object ev RAW_BUCKET RAW_KEY = Inl e \<or>
        get_object ev RAW_BUCKET RAW_KEY = Inr (Inl e)"
  then have "get_all_facilities_try ev w = Inl (e, emit Info_reading w)"
    by (rule fetch_failure)
  then show "get_all_facilities ev w =
        Inr ([], emit (case e of ClientError m \<Rightarrow> Error_read_client e | _ \<Rightarrow> Error_get_all e)
                   (emit Info_reading w))"
    by (rule get_all_facilities_absorbs)
next
  show "\<exists>w'. write_to_s3 ev data w = Inr (JNull, w')"
    by (rule write_to_s3_returns)
next
  fix e assume "put_object ev TRANSFORMED_BUCKET TRANSFORMED_KEY (json_dumps ev (JArr data)) = Inl e"
  then show "write_to_s3 ev data w =
        Inr (JNull, emit (case e of ClientError m \<Rightarrow> Error_write_client e | _ \<Rightarrow> Error_write e)
                      (emit (Info_writing (length data)) w))"
    by (rule write_to_s3_absorbs)
next
  fix e w' assume "main ev w = Inl (e, w')"
  then show "\<exists>facilities w1.
          get_all_facilities ev (emit Info_starting w) = Inr (facilities, w1) \<and>
          filter_expiring_facilities ev facilities w1 = Inl (e, w')"
    by (rule main_raises_in_filter)
next
  fix e w1 assume "get_all_facilities_try ev (emit Info_starting w) = Inl (e, w1) \<and>
           (\<forall>k. year (dt_date (now_at ev k)) < 9999)"
  then show "\<exists>w'. main ev w = Inr ((), w')"
    using main_after_fetch_failure by blast
qed

theorem fetch_and_write_failures_absorbed_witness:
  "get_all_facilities sample_env world0 =
     Inr ([], world0\<lparr>logged := [Info_reading, Error_read_client (ClientError (str ''NoSuchKey''))]\<rparr>) \<and>
   write_to_s3 sample_env [accredited ''A'' ''2024-01-01''] world0 =
     Inr (JNull, world0\<lparr>logged :=
            [Info_writing 1, Error_write (OtherException (str ''EndpointConnectionError''))]\<rparr>) \<and>
   (\<exists>w'. main sample_env world0 = Inr ((), w'))"
proof -
  let ?data = "[accredited ''A'' ''2024-01-01'']"
  note t = fetch_and_write_failures_absorbed [of sample_env world0 ?data]
  have g: "get_object sample_env RAW_BUCKET RAW_KEY = Inl (ClientError (str ''NoSuchKey''))"
    by (simp add: sample_env_def)
  have p: "put_object sample_env TRANSFORMED_BUCKET TRANSFORMED_KEY
             (json_dumps sample_env (JArr ?data)) =
           Inl (OtherException (str ''EndpointConnectionError''))"
    by (simp add: sample_env_def)
  have f: "get_all_facilities_try sample_env (emit Info_starting world0) =
           Inl (ClientError (str ''NoSuchKey''), emit Info_reading (emit Info_starting world0))"
    by (simp add: get_all_facilities_try_def Let_def g)
  have y: "\<forall>k. year (dt_date (now_at sample_env k)) < 9999" by (simp add: run_defs)
  have 1: "get_all_facilities sample_env world0 =
     Inr ([], world0\<lparr>logged := [Info_reading, Error_read_client (ClientError (str ''NoSuchKey''))]\<rparr>)"
    using t g by (simp add: emit_def world0_def)
  have 2: "write_to_s3 sample_env ?data world0 =
     Inr (JNull, world0\<lparr>logged :=
            [Info_writing 1, Error_write (OtherException (str ''EndpointConnectionError''))]\<rparr>)"
    using t p by (simp add: emit_def world0_def)
  have 3: "\<exists>w'. main sample_env world0 = Inr ((), w')"
    using t f y by blast
  from 1 2 3 show ?thesis by blast
qed

text \<open>
  C10: a facility without the key \<open>accreditations\<close>, or with the empty list under it,
  changes nothing in a pass of \<open>filter_expiring_facilities\<close>: the pass goes as without it,
  it is never in the output, and on its own it gives the empty list without raising.
\<close>

theorem filter_expiring_facilities_lacking:
  assumes "lacks_accreditations f"
  shows "filter_expiring_facilities ev (pre @ f # post) w =
           filter_expiring_facilities ev (pre @ post) w \<and>
         (\<forall>r w'. filter_expiring_facilities ev L w = Inr (r, w') \<longrightarrow> f \<notin> set r) \<and>
         ((\<forall>k. year (dt_date (now_at ev k)) < 9999) \<longrightarrow>
            (\<exists>w'. filter_expiring_facilities ev [f] w = Inr ([], w')))"
proof (intro conjI allI impI)
  show "filter_expiring_facilities ev (pre @ f # post) w =
           filter_expiring_facilities ev (pre @ post) w"
    by (rule filter_expiring_facilities_without [OF assms])
next
  fix r w' assume "filter_expiring_facilities ev L w = Inr (r, w')"
  then show "f \<notin> set r" using assms by (rule filter_expiring_facilities_never_lacking)
next
  assume "\<forall>k. year (dt_date (now_at ev k)) < 9999"
  then show "\<exists>w'. filter_expiring_facilities ev [f] w = Inr ([], w')"
    using filter_expiring_facilities_without [OF assms, of ev "[]" "[]" w]
      filter_expiring_facilities_empty [of ev w]
    by simp
qed

theorem filter_expiring_facilities_lacking_witness:
  "filter_expiring_facilities sample_env
     [JObj [(str ''facility_name'', JStr (str ''C''))], accredited ''A'' ''2024-01-01'',
      JObj [(str ''accreditations'', JArr [])]] world0 =
   filter_expiring_facilities sample_env [accredited ''A'' ''2024-01-01''] world0 \<and>
   (\<exists>w'. filter_expiring_facilities sample_env
            [JObj [(str ''facility_name'', JStr (str ''C''))]] world0 = Inr ([], w'))"
proof -
  let ?c = "JObj [(str ''facility_name'', JStr (str ''C''))]"
  let ?d = "JObj [(str ''accreditations'', JArr [])]"
  let ?a = "accredited ''A'' ''2024-01-01''"
  have c: "lacks_accreditations ?c" by (simp add: str_def)
  have d: "lacks_accreditations ?d" by (simp add: str_def)
  have y: "\<forall>k. year (dt_date (now_at sample_env k)) < 9999" by (simp add: run_defs)
  have "filter_expiring_facilities sample_env [?c, ?a, ?d] world0 =
        filter_expiring_facilities sample_env [?a, ?d] world0"
    using filter_expiring_facilities_lacking [OF c, of sample_env "[]" "[?a, ?d]" world0]
    by simp
  also have "\<dots> = filter_expiring_facilities sample_env [?a] world0"
    using filter_expiring_facilities_lacking [OF d, of sample_env "[?a]" "[]" world0]
    by simp
  finally have 1: "filter_expiring_facilities sample_env [?c, ?a, ?d] world0 =
        filter_expiring_facilities sample_env [?a] world0" .
  have 2: "\<exists>w'. filter_expiring_facilities sample_env [?c] world0 = Inr ([], w')"
    using filter_expiring_facilities_lacking [OF c, of sample_env "[]" "[]" world0] y
    by blast
  from 1 2 show ?thesis by blast
qed

text \<open>
  C5: \<open>wait_for_query\<close> returns at the first terminal state it sees: when the next n
  fetches show states that are not terminal and the one after them shows \<open>SUCCEEDED\<close>,
  \<open>FAILED\<close> or \<open>CANCELLED\<close>, within the budget, it returns that state after exactly
  n + 1 fetches and n sleeps. On the states \<open>RUNNING\<close>, \<open>RUNNING\<close>, \<open>SUCCEEDED\<close> it
  makes exactly 3 fetches and returns \<open>SUCCEEDED\<close>.
\<close>

theorem wait_for_query_first_terminal:
  "((\<forall>i<n. \<exists>st. polled_state ev qid (athena_fetches w + i) = Inr st \<and> terminal_state st = None) \<and>
    polled_state ev qid (athena_fetches w + n) = Inr (JStr s) \<and>
    (s = SUCCEEDED \<or> s = FAILED \<or> s = CANCELLED) \<and> int n < max_tries \<and> 0 \<le> delay \<longrightarrow>
      (\<exists>w'. wait_for_query ev qid max_tries delay w = Inr (s, w') \<and>
            athena_fetches w' = athena_fetches w + n + 1 \<and>
            slept w' = slept w @ replicate n delay)) \<and>
   (polled_state ev qid (athena_fetches w) = Inr (JStr RUNNING) \<and>
    polled_state ev qid (athena_fetches w + 1) = Inr (JStr RUNNING) \<and>
    polled_state ev qid (athena_fetches w + 2) = Inr (JStr SUCCEEDED) \<longrightarrow>
      (\<exists>w'. wait_for_query ev qid 20 3 w = Inr (SUCCEEDED, w') \<and>
            athena_fetches w' = athena_fetches w + 3))"
proof (intro conjI impI)
  assume h: "(\<forall>i<n. \<exists>st. polled_state ev qid (athena_fetches w + i) = Inr st \<and> terminal_state st = None) \<and>
    polled_state ev qid (athena_fetches w + n) = Inr (JStr s) \<and>
    (s = SUCCEEDED \<or> s = FAILED \<or> s = CANCELLED) \<and> int n < max_tries \<and> 0 \<le> delay"
  then have t: "terminal_state (JStr s) = Some s" by auto
  from h have "int n < max_tries" by blast
  then have l: "n < length [0..<nat max_tries]" by simp
  from h show "\<exists>w'. wait_for_query ev qid max_tries delay w = Inr (s, w') \<and>
            athena_fetches w' = athena_fetches w + n + 1 \<and>
            slept w' = slept w @ replicate n delay"
    unfolding wait_for_query_def
    using wait_for_query_loop_first_terminal [of n ev qid w "JStr s" s "[0..<nat max_tries]" delay] t l
    by blast
next
  assume h: "polled_state ev qid (athena_fetches w) = Inr (JStr RUNNING) \<and>
    polled_state ev qid (athena_fetches w + 1) = Inr (JStr RUNNING) \<and>
    polled_state ev qid (athena_fetches w + 2) = Inr (JStr SUCCEEDED)"
  have r: "terminal_state (JStr RUNNING) = None"
    by (simp add: RUNNING_def SUCCEEDED_def FAILED_def CANCELLED_def str_def)
  have "\<forall>i<2. \<exists>st. polled_state ev qid (athena_fetches w + i) = Inr st \<and> terminal_state st = None"
  proof (intro allI impI)
    fix i :: nat assume "i < 2"
    then have "i = 0 \<or> i = 1" by auto
    with h r show "\<exists>st. polled_state ev qid (athena_fetches w + i) = Inr st \<and> terminal_state st = None"
      by auto
  qed
  moreover have "terminal_state (JStr SUCCEEDED) = Some SUCCEEDED" by simp
  moreover have "2 < length [0..<nat 20]" by simp
  ultimately show "\<exists>w'. wait_for_query ev qid 20 3 w = Inr (SUCCEEDED, w') \<and>
            athena_fetches w' = athena_fetches w + 3"
    unfolding wait_for_query_def
    using wait_for_query_loop_first_terminal [of 2 ev qid w "JStr SUCCEEDED" SUCCEEDED
        "[0..<nat 20]" 3] h
    by auto
qed

theorem wait_for_query_first_terminal_witness:
  "\<exists>w'. wait_for_query sample_env (JStr (str ''q1'')) 20 3 world0 = Inr (SUCCEEDED, w') \<and>
        athena_fetches w' = 3"
proof -
  have "polled_state sample_env (JStr (str ''q1'')) (athena_fetches world0) = Inr (JStr RUNNING) \<and>
    polled_state sample_env (JStr (str ''q1'')) (athena_fetches world0 + 1) = Inr (JStr RUNNING) \<and>
    polled_state sample_env (JStr (str ''q1'')) (athena_fetches world0 + 2) = Inr (JStr SUCCEEDED)"
    by (simp add: poll_defs)
  then show ?thesis
    using wait_for_query_first_terminal [of 0 sample_env "JStr (str ''q1'')" world0 SUCCEEDED 20 3]
    by (simp add: world0_def)
qed

text \<open>
  C6: when each of the N fetches of a budget of N attempts shows a state that is not
  terminal (\<open>RUNNING\<close>, say), \<open>wait_for_query\<close> raises \<open>TimeoutError\<close> after exactly N
  fetches, and that error is no \<open>RuntimeError\<close>, the error of a query that failed.
\<close>

theorem wait_for_query_times_out:
  assumes "\<forall>i<nat max_tries. \<exists>st. polled_state ev qid (athena_fetches w + i) = Inr st \<and>
              terminal_state st = None"
    and "0 \<le> delay"
  shows "\<exists>w'. wait_for_query ev qid max_tries delay w =
                Inl (TimeoutError (str ''Athena query timed out''), w') \<and>
           athena_fetches w' = athena_fetches w + nat max_tries \<and>
           slept w' = slept w @ replicate (nat max_tries) delay \<and>
           (\<forall>m. TimeoutError (str ''Athena query timed out'') \<noteq> RuntimeError m)"
  using wait_for_query_loop_times_out [of "[0..<nat max_tries]" ev qid w delay] assms
  by (auto simp add: wait_for_query_def)

theorem wait_for_query_times_out_witness:
  "\<exists>w'. wait_for_query running_env (JStr (str ''q1'')) 20 3 world0 =
          Inl (TimeoutError (str ''Athena query timed out''), w') \<and>
        athena_fetches w' = 20 \<and> slept w' = replicate 20 3"
proof -
  have r: "terminal_state (JStr RUNNING) = None"
    by (simp add: RUNNING_def SUCCEEDED_def FAILED_def CANCELLED_def str_def)
  have "\<forall>i<nat 20. \<exists>st. polled_state running_env (JStr (str ''q1'')) (athena_fetches world0 + i) = Inr st \<and>
              terminal_state st = None"
    using r by (simp add: polled_state_def shows_states_def execution_response_def
        execution_field_def running_env_def sample_env_def str_def)
  from wait_for_query_times_out [OF this, of 3] show ?thesis
    by (simp add: world0_def)
qed

text \<open>
  C7: when the query has started and the polling of \<open>lambda_handler\<close> ends in a state
  other than \<open>SUCCEEDED\<close>, which is \<open>FAILED\<close> or \<open>CANCELLED\<close>, the handler raises a
  \<open>RuntimeError\<close> whose message ends with that state; it returns no payload and has
  copied nothing.
\<close>

theorem lambda_handler_raises_on_failure:
  assumes "start_athena_query ev (emit (Info_event (json_dumps ev event)) w) = Inr (qid, w1)"
    and "wait_for_query ev qid 20 3 w1 = Inr (state, w2)"
    and "state \<noteq> SUCCEEDED"
  shows "lambda_handler ev event w =
           Inl (RuntimeError (str ''Athena query failed with state: '' @ state),
                emit (Error_not_succeeded state) w2) \<and>
         (state = FAILED \<or> state = CANCELLED) \<and>
         s3_calls (emit (Error_not_succeeded state) w2) = s3_calls w"
proof -
  have 1: "s3_calls w1 = s3_calls w"
    using start_athena_query_frame [OF assms(1)] by (simp add: emit_def)
  have 2: "(state = SUCCEEDED \<or> state = FAILED \<or> state = CANCELLED) \<and> s3_calls w2 = s3_calls w1"
    using wait_for_query_frame [OF assms(2)] by blast
  show ?thesis
    using assms 1 2 by (simp add: lambda_handler_def emit_def)
qed

theorem lambda_handler_raises_on_failure_witness:
  "\<exists>w'. lambda_handler failed_env JNull world0 =
          Inl (RuntimeError (str ''Athena query failed with state: FAILED''), w') \<and>
        s3_calls w' = []"
proof -
  let ?w = "emit (Info_event (json_dumps failed_env JNull)) world0"
  let ?w1 = "emit (Info_started_query (JStr (str ''q1'')))
               (emit (Info_output_location ATHENA_OUTPUT_LOCATION) ?w)"
  have s: "start_athena_query failed_env ?w = Inr (JStr (str ''q1''), ?w1)"
    by (simp add: start_athena_query_def failed_env_def sample_env_def Let_def str_def)
  have "polled_state failed_env (JStr (str ''q1'')) (athena_fetches ?w1 + 0) = Inr (JStr RUNNING) \<and>
        terminal_state (JStr RUNNING) = None \<and>
        polled_state failed_env (JStr (str ''q1'')) (athena_fetches ?w1 + 1) = Inr (JStr FAILED)"
    by (simp add: poll_defs emit_def)
  then obtain w2 where p: "wait_for_query failed_env (JStr (str ''q1'')) 20 3 ?w1 = Inr (FAILED, w2)"
    using wait_for_query_loop_first_terminal [of 1 failed_env "JStr (str ''q1'')" ?w1 "JStr FAILED"
        FAILED "[0..<nat 20]" 3]
    unfolding wait_for_query_def by auto
  have n: "FAILED \<noteq> SUCCEEDED" by (simp add: FAILED_def SUCCEEDED_def str_def)
  from lambda_handler_raises_on_failure [OF s p n] show ?thesis
    by (simp add: FAILED_def str_def world0_def emit_def)
qed

text \<open>
  C8: when the query has succeeded, its output location is resolved and the copy goes
  through, \<open>lambda_handler\<close> has copied the result to the key
  \<open>transformed/state_counts_YYYYMMDDTHHMMSSZ.csv\<close> of the time of the copy and returns
  the payload with status code 200 and, as its body, the serialised message and
  \<open>result_path\<close>, the \<open>s3://\<close> path of that key in the results bucket.
\<close>

theorem lambda_handler_archives:
  assumes "start_athena_query ev (emit (Info_event (json_dumps ev event)) w) = Inr (qid, w1)"
    and "wait_for_query ev qid 20 3 w1 = Inr (SUCCEEDED, w2)"
    and "get_query_execution ev (athena_fetches w2) qid = Inr execution"
    and "execution_field execution (str ''ResultConfiguration'') (str ''OutputLocation'') =
           Inr (JStr location)"
    and "urlparse ev location = Inr (src_bucket, path)"
    and "valid_datetime (now_at ev (clock_reads w))"
    and "copy_object ev (str ''healthcare-facility'') (archive_key (now_at ev (clock_reads w)))
           src_bucket (dropWhile (\<lambda>c. c = 47) path) = Inr ()"
  shows "\<exists>w'. lambda_handler ev event w =
            Inr (JObj [(str ''statusCode'', JInt 200),
                       (str ''body'',
                        JStr (json_dumps ev
                          (JObj [(str ''message'', JStr (str ''Athena state counts query completed'')),
                                 (str ''result_path'',
                                  JStr (str ''s3://healthcare-facility/'' @
                                        archive_key (now_at ev (clock_reads w))))])))], w') \<and>
          s3_calls w' = s3_calls w @
            [Copy_object (str ''healthcare-facility'') (archive_key (now_at ev (clock_reads w)))
               src_bucket (dropWhile (\<lambda>c. c = 47) path)]"
proof -
  have 1: "s3_calls w1 = s3_calls w \<and> clock_reads w1 = clock_reads w"
    using start_athena_query_frame [OF assms(1)] by (simp add: emit_def)
  have 2: "s3_calls w2 = s3_calls w1 \<and> clock_reads w2 = clock_reads w1"
    using wait_for_query_frame [OF assms(2)] by blast
  have b: "FINAL_RESULTS_BUCKET = str ''healthcare-facility''" by (simp add: FINAL_RESULTS_BUCKET_def)
  have v: "valid_datetime (now_at ev (clock_reads w2))" using assms(6) 1 2 by simp
  have c: "copy_object ev FINAL_RESULTS_BUCKET (archive_key (now_at ev (clock_reads w2))) src_bucket
           (dropWhile (\<lambda>c. c = 47) path) = Inr ()"
    using assms(7) 1 2 b by simp
  from copy_results_to_final_location_result [OF assms(3) assms(4) assms(5) v c]
  obtain w3 where r: "copy_results_to_final_location ev qid w2 =
            Inr (str ''s3://'' @ FINAL_RESULTS_BUCKET @ str ''/'' @
                   archive_key (now_at ev (clock_reads w2)), w3)"
    and s: "s3_calls w3 = s3_calls w2 @
            [Copy_object FINAL_RESULTS_BUCKET (archive_key (now_at ev (clock_reads w2))) src_bucket
               (dropWhile (\<lambda>c. c = 47) path)]"
    by blast
  have p: "str ''s3://'' @ FINAL_RESULTS_BUCKET @ str ''/'' @ k = str ''s3://healthcare-facility/'' @ k" for k
    by (simp add: b str_def)
  have r': "copy_results_to_final_location ev qid w2 =
      Inr (str ''s3://healthcare-facility/'' @ archive_key (now_at ev (clock_reads w)), w3)"
    using r 1 2 by (simp add: p)
  have s': "s3_calls (emit (Info_written (str ''s3://healthcare-facility/'' @
                archive_key (now_at ev (clock_reads w)))) w3) =
      s3_calls w @
        [Copy_object (str ''healthcare-facility'') (archive_key (now_at ev (clock_reads w)))
           src_bucket (dropWhile (\<lambda>c. c = 47) path)]"
    using s 1 2 by (simp add: emit_def b)
  have "lambda_handler ev event w =
      Inr (JObj [(str ''statusCode'', JInt 200),
                 (str ''body'',
                  JStr (json_dumps ev
                    (JObj [(str ''message'', JStr (str ''Athena state counts query completed'')),
                           (str ''result_path'',
                            JStr (str ''s3://healthcare-facility/'' @
                                  archive_key (now_at ev (clock_reads w))))])))],
           emit (Info_written (str ''s3://healthcare-facility/'' @
                   archive_key (now_at ev (clock_reads w)))) w3)"
    by (simp add: lambda_handler_def assms(1) assms(2) r')
  with s' show ?thesis by blast
qed

theorem lambda_handler_archives_witness:
  "\<exists>w'. lambda_handler evening_env JNull world0 =
          Inr (JObj [(str ''statusCode'', JInt 200),
                     (str ''body'',
                      JStr (json_dumps evening_env
                        (JObj [(str ''message'', JStr (str ''Athena state counts query completed'')),
                               (str ''result_path'',
                                JStr (str ''s3://healthcare-facility/transformed/state_counts_20261103T172605Z.csv''))])))],
               w') \<and>
        s3_calls w' =
          [Copy_object (str ''healthcare-facility'')
             (str ''transformed/state_counts_20261103T172605Z.csv'')
             (str ''healthcare-facility'') (str ''athena_results/q1.csv'')]"
proof -
  let ?q = "JStr (str ''q1'')"
  let ?w = "emit (Info_event (json_dumps evening_env JNull)) world0"
  let ?w1 = "emit (Info_started_query ?q) (emit (Info_output_location ATHENA_OUTPUT_LOCATION) ?w)"
  let ?t = "now_at evening_env (clock_reads world0)"
  have s: "start_athena_query evening_env ?w = Inr (?q, ?w1)"
    by (simp add: start_athena_query_def evening_env_def sample_env_def Let_def str_def)
  have "polled_state evening_env ?q (athena_fetches ?w1 + 0) = Inr (JStr RUNNING) \<and>
        polled_state evening_env ?q (athena_fetches ?w1 + 1) = Inr (JStr RUNNING) \<and>
        terminal_state (JStr RUNNING) = None \<and>
        polled_state evening_env ?q (athena_fetches ?w1 + 2) = Inr (JStr SUCCEEDED)"
    by (simp add: poll_defs emit_def)
  then have "\<exists>w2. wait_for_query evening_env ?q 20 3 ?w1 = Inr (SUCCEEDED, w2) \<and>
      athena_fetches w2 = athena_fetches ?w1 + 2 + 1"
    using wait_for_query_loop_first_terminal [of 2 evening_env ?q ?w1 "JStr SUCCEEDED"
        SUCCEEDED "[0..<nat 20]" 3]
    unfolding wait_for_query_def by (auto simp add: less_Suc_eq numeral_2_eq_2)
  then obtain w2 where p: "wait_for_query evening_env ?q 20 3 ?w1 = Inr (SUCCEEDED, w2)"
    and f: "athena_fetches w2 = 3" by (auto simp add: emit_def world0_def)
  let ?execution = "execution_response RUNNING (str ''s3://healthcare-facility/athena_results/q1.csv'')"
  have g: "get_query_execution evening_env (athena_fetches w2) ?q = Inr ?execution"
    unfolding f by (simp add: evening_env_def sample_env_def shows_states_def)
  have l: "execution_field ?execution (str ''ResultConfiguration'') (str ''OutputLocation'') =
           Inr (JStr (str ''s3://healthcare-facility/athena_results/q1.csv''))"
    by (simp add: execution_field_def execution_response_def str_def)
  have u: "urlparse evening_env (str ''s3://healthcare-facility/athena_results/q1.csv'') =
           Inr (str ''healthcare-facility'', str ''/athena_results/q1.csv'')"
    by (simp add: evening_env_def sample_env_def)
  have v: "valid_datetime ?t"
    by (simp add: evening_env_def sample_env_def readings_def world0_def valid_datetime_def
        valid_date_def days_in_month_def)
  have c: "copy_object evening_env (str ''healthcare-facility'') (archive_key ?t)
           (str ''healthcare-facility'') (dropWhile (\<lambda>c. c = 47) (str ''/athena_results/q1.csv'')) = Inr ()"
    by (simp add: evening_env_def sample_env_def)
  have k: "archive_key ?t = str ''transformed/state_counts_20261103T172605Z.csv''"
    by (simp add: archive_key_def evening_env_def sample_env_def readings_def world0_def
        four_digits_def two_digits_def str_def)
  have d: "dropWhile (\<lambda>c. c = 47) (str ''/athena_results/q1.csv'') = str ''athena_results/q1.csv''"
    by (simp add: str_def)
  from lambda_handler_archives [OF s p g l u v c] show ?thesis
    unfolding k d by (simp add: world0_def str_def emit_def)
qed

end
